theory Spec2Isabelle
  imports Complex_Main "HOL-Library.Monad_Syntax"
begin

section \<open>JavaScript values\<close>

text \<open>
  The generator works on the JSON-LD graph of an AMF model: plain JavaScript objects,
  arrays and primitives. A value is modelled as it is in the program. An object is an
  association list in insertion order, looked up by its first binding. Numbers are opaque
  to the engine, which only builds \<open>0\<close> itself and tests numbers for truthiness.
\<close>

datatype jsval =
    JUndefined
  | JNull
  | JBool bool
  | JNum real
  | JNaN
  | JStr string
  | JArr "jsval list"
  | JObj "(string \<times> jsval) list"

text \<open>
  A function of the engine either returns a value or throws (a \<open>TypeError\<close> on a
  property read of \<open>undefined\<close> or \<open>null\<close>, or on calling a missing method). Throwing is
  \<open>None\<close> in the option monad; a JavaScript \<open>undefined\<close> result is a value of its own.
\<close>

type_synonym 'a js = "'a option"

declare Option.bind_cong [fundef_cong]

fun truthy :: "jsval \<Rightarrow> bool" where
  "truthy JUndefined = False"
| "truthy JNull = False"
| "truthy (JBool b) = b"
| "truthy (JNum n) = (n \<noteq> 0)"
| "truthy JNaN = False"
| "truthy (JStr s) = (s \<noteq> [])"
| "truthy (JArr xs) = True"
| "truthy (JObj kvs) = True"

definition falsy :: "jsval \<Rightarrow> bool" where
  "falsy v = (\<not> truthy v)"

definition nullish :: "jsval \<Rightarrow> bool" where
  "nullish v = (v = JUndefined \<or> v = JNull)"

definition isArray :: "jsval \<Rightarrow> bool" where
  "isArray v = (case v of JArr xs \<Rightarrow> True | _ \<Rightarrow> False)"

text \<open>\<open>typeof v === 'object'\<close>: objects, arrays and \<open>null\<close>.\<close>

definition typeof_object :: "jsval \<Rightarrow> bool" where
  "typeof_object v = (case v of JObj kvs \<Rightarrow> True | JArr xs \<Rightarrow> True | JNull \<Rightarrow> True | _ \<Rightarrow> False)"

text \<open>
  \<open>v[k]\<close> for a vocabulary key \<open>k\<close> (an IRI, \<open>@id\<close>, \<open>@type\<close> or \<open>@value\<close>, never an index or
  \<open>length\<close>): on a value that is not \<open>undefined\<close> or \<open>null\<close> the read succeeds, and gives
  \<open>undefined\<close> unless the value is an object that has the key.
\<close>

definition lookup_js :: "jsval \<Rightarrow> string \<Rightarrow> jsval" where
  "lookup_js v k = (case v of
      JObj kvs \<Rightarrow> (case map_of kvs k of Some w \<Rightarrow> w | None \<Rightarrow> JUndefined)
    | _ \<Rightarrow> JUndefined)"

definition js_get :: "jsval \<Rightarrow> string \<Rightarrow> jsval js" where
  "js_get v k = (if nullish v then None else Some (lookup_js v k))"

text \<open>\<open>v[0]\<close>.\<close>

definition idx0 :: "jsval \<Rightarrow> jsval js" where
  "idx0 v = (case v of
      JUndefined \<Rightarrow> None
    | JNull \<Rightarrow> None
    | JArr xs \<Rightarrow> (case xs of [] \<Rightarrow> Some JUndefined | x # _ \<Rightarrow> Some x)
    | JStr s \<Rightarrow> (case s of [] \<Rightarrow> Some JUndefined | c # _ \<Rightarrow> Some (JStr [c]))
    | JObj kvs \<Rightarrow> Some (lookup_js v ''0'')
    | _ \<Rightarrow> Some JUndefined)"

text \<open>The idiom \<open>if (x instanceof Array) { x = x[0]; }\<close>.\<close>

definition unwrap :: "jsval \<Rightarrow> jsval" where
  "unwrap v = (case v of JArr xs \<Rightarrow> (case xs of [] \<Rightarrow> JUndefined | x # _ \<Rightarrow> x) | _ \<Rightarrow> v)"

text \<open>
  The elements visited by \<open>for (i = 0; i < v.length; i++) v[i]\<close>: an array's elements, a
  string's characters, nothing for a value without a length, a throw on \<open>undefined\<close> and
  \<open>null\<close>.
\<close>

definition js_elems :: "jsval \<Rightarrow> jsval list js" where
  "js_elems v = (case v of
      JUndefined \<Rightarrow> None
    | JNull \<Rightarrow> None
    | JArr xs \<Rightarrow> Some xs
    | JStr s \<Rightarrow> Some (map (\<lambda>c. JStr [c]) s)
    | _ \<Rightarrow> Some [])"

subsection \<open>Strings\<close>

text \<open>
  A string is the list of its code units. The characters of the model are the code units
  below 256 (Latin-1), which covers the vocabulary and the names the engine looks at.
\<close>

text \<open>\<open>s.indexOf(p)\<close>: the first position of \<open>p\<close> in \<open>s\<close>, or \<open>-1\<close>.\<close>

definition shift_index :: "int \<Rightarrow> int" where
  "shift_index r = (if r = -1 then -1 else r + 1)"

fun str_indexOf :: "string \<Rightarrow> string \<Rightarrow> int" where
  "str_indexOf [] p = (if p = [] then 0 else -1)"
| "str_indexOf (c # cs) p =
     (if take (length p) (c # cs) = p then 0 else shift_index (str_indexOf cs p))"

text \<open>
  \<open>v.indexOf(p)\<close> for a string \<open>p\<close>: defined for strings and arrays (where it searches
  an element strictly equal to \<open>p\<close>), a \<open>TypeError\<close> otherwise.
\<close>

fun list_indexOf :: "jsval list \<Rightarrow> jsval \<Rightarrow> int" where
  "list_indexOf [] p = -1"
| "list_indexOf (x # xs) p = (if x = p then 0 else shift_index (list_indexOf xs p))"

definition js_indexOf :: "jsval \<Rightarrow> string \<Rightarrow> int js" where
  "js_indexOf v p = (case v of
      JStr s \<Rightarrow> Some (str_indexOf s p)
    | JArr xs \<Rightarrow> Some (list_indexOf xs (JStr p))
    | _ \<Rightarrow> None)"

text \<open>\<open>s.split(',')\<close>.\<close>

fun split_on :: "char \<Rightarrow> string \<Rightarrow> string list" where
  "split_on d [] = [[]]"
| "split_on d (c # cs) =
     (case split_on d cs of
        [] \<Rightarrow> (if c = d then [[], []] else [[c]])
      | w # ws \<Rightarrow> (if c = d then [] # w # ws else (c # w) # ws))"

text \<open>\<open>s.replace(p, '')\<close> with a string pattern: only the first occurrence is removed.\<close>

fun remove_first :: "string \<Rightarrow> string \<Rightarrow> string" where
  "remove_first p [] = []"
| "remove_first p (c # cs) =
     (if take (length p) (c # cs) = p then drop (length p) (c # cs)
      else c # remove_first p cs)"

text \<open>
  \<open>s.trim()\<close> removes white space and line terminators at both ends: among the
  characters of the model these are the space, the no-break space and the controls
  \<open>0x09\<close> to \<open>0x0D\<close>.
\<close>

definition is_space :: "char \<Rightarrow> bool" where
  "is_space c = (c \<in> {CHR '' '', CHR 0xA0, CHR 0x09, CHR 0x0A, CHR 0x0B, CHR 0x0C, CHR 0x0D})"

definition js_trim :: "string \<Rightarrow> string" where
  "js_trim s = rev (dropWhile is_space (rev (dropWhile is_space s)))"

text \<open>
  \<open>c.toUpperCase()\<close> for a string of one character: the capital of a small letter
  (\<open>0xE0\<close> to \<open>0xFE\<close> without the division sign are the small letters of Latin-1 above
  ASCII), \<open>SS\<close> for the sharp s, and the character itself otherwise. The capitals of the
  micro sign and of y with diaeresis are no characters of the model; these two are left as
  they are.
\<close>

definition latin_small :: string where
  "latin_small = [
     CHR 0xE0, CHR 0xE1, CHR 0xE2, CHR 0xE3, CHR 0xE4, CHR 0xE5, CHR 0xE6, CHR 0xE7,
     CHR 0xE8, CHR 0xE9, CHR 0xEA, CHR 0xEB, CHR 0xEC, CHR 0xED, CHR 0xEE, CHR 0xEF,
     CHR 0xF0, CHR 0xF1, CHR 0xF2, CHR 0xF3, CHR 0xF4, CHR 0xF5, CHR 0xF6, CHR 0xF8,
     CHR 0xF9, CHR 0xFA, CHR 0xFB, CHR 0xFC, CHR 0xFD, CHR 0xFE]"

definition latin_capital :: string where
  "latin_capital = [
     CHR 0xC0, CHR 0xC1, CHR 0xC2, CHR 0xC3, CHR 0xC4, CHR 0xC5, CHR 0xC6, CHR 0xC7,
     CHR 0xC8, CHR 0xC9, CHR 0xCA, CHR 0xCB, CHR 0xCC, CHR 0xCD, CHR 0xCE, CHR 0xCF,
     CHR 0xD0, CHR 0xD1, CHR 0xD2, CHR 0xD3, CHR 0xD4, CHR 0xD5, CHR 0xD6, CHR 0xD8,
     CHR 0xD9, CHR 0xDA, CHR 0xDB, CHR 0xDC, CHR 0xDD, CHR 0xDE]"

definition toUpperCase :: "char \<Rightarrow> string" where
  "toUpperCase c =
     (case map_of (zip ''abcdefghijklmnopqrstuvwxyz'' ''ABCDEFGHIJKLMNOPQRSTUVWXYZ'') c of
        Some u \<Rightarrow> [u]
      | None \<Rightarrow>
         (case map_of (zip latin_small latin_capital) c of
            Some u \<Rightarrow> [u]
          | None \<Rightarrow> (if c = CHR 0xDF then ''SS'' else [c])))"

text \<open>Decimal digits of a loop counter, as \<open>'Union #' + (i + 1)\<close> prints it.\<close>

definition digit :: "nat \<Rightarrow> char" where
  "digit d = ''0123456789'' ! d"

function nat_to_string :: "nat \<Rightarrow> string" where
  "nat_to_string n =
     (if n < 10 then [digit n] else nat_to_string (n div 10) @ [digit (n mod 10)])"
  by pat_completeness auto
termination
  by (relation "measure (\<lambda>n. n)") auto

declare nat_to_string.simps [simp del]

section \<open>The environment: built-ins of the JavaScript runtime\<close>

text \<open>
  The engine calls built-ins of the runtime that are no part of the repository:
  \<open>JSON.parse\<close>, \<open>JSON.stringify\<close>, \<open>Number\<close>, \<open>isNaN\<close>, the conversion of a value to a
  string in a concatenation, \<open>decodeURIComponent\<close>. They are parameters of the model, so
  that every theorem holds whatever they compute. \<open>JSON_parse\<close> and
  \<open>decodeURIComponent\<close> may throw (\<open>None\<close>).

  The tree-markup side builds a DOM document and serialises it. The two functions of
  the engine that return such a document as text, \<open>_xmlFromStructure\<close> and
  \<open>_xmlExampleFromProperties\<close>, and the pretty-printer \<open>formatXml\<close> are taken through
  the environment as well: the first two return a value or throw, the last maps a value
  to a string. \<open>dom_validName\<close> says which names the DOM accepts for an element or an
  attribute.
\<close>

record env =
  JSON_parse :: "jsval \<Rightarrow> jsval js"
  JSON_stringify :: "jsval \<Rightarrow> jsval"
  to_Number :: "jsval \<Rightarrow> jsval"
  is_NaN :: "jsval \<Rightarrow> bool"
  to_String :: "jsval \<Rightarrow> string"
  decodeURIComponent :: "string \<Rightarrow> string js"
  dom_xmlFromStructure :: "jsval \<Rightarrow> jsval \<Rightarrow> jsval js"
  dom_xmlExampleFromProperties :: "jsval list \<Rightarrow> jsval \<Rightarrow> jsval \<Rightarrow> jsval js"
  dom_formatXml :: "string \<Rightarrow> string"
  dom_validName :: "string \<Rightarrow> bool"

definition str_of :: "env \<Rightarrow> jsval \<Rightarrow> string" where
  "str_of E v = (case v of JStr s \<Rightarrow> s | _ \<Rightarrow> to_String E v)"

text \<open>
  \<open>a === b\<close>. Primitives are compared by value and \<open>NaN\<close> equals nothing. Objects and
  arrays are compared by identity; the engine only compares values read from different
  places, which are never the same object.
\<close>

definition strict_eq :: "jsval \<Rightarrow> jsval \<Rightarrow> bool" where
  "strict_eq a b = (case a of
      JArr xs \<Rightarrow> False
    | JObj kvs \<Rightarrow> False
    | JNaN \<Rightarrow> False
    | _ \<Rightarrow> a = b)"

text \<open>\<open>typeof v\<close> is \<open>'string'\<close>, \<open>'number'\<close> or \<open>'boolean'\<close>.\<close>

definition typeof_primitive :: "jsval \<Rightarrow> bool" where
  "typeof_primitive v = (case v of
      JStr s \<Rightarrow> True
    | JNum n \<Rightarrow> True
    | JNaN \<Rightarrow> True
    | JBool b \<Rightarrow> True
    | _ \<Rightarrow> False)"

section \<open>The Model Accessor and the vocabulary\<close>

text \<open>
  Modelled from the spec: the Model Accessor (the mixin \<open>AmfHelperMixin\<close> of the package
  \<open>amf-helper-mixin\<close>, which the class extends and which is no part of the repository)
  and the vocabulary \<open>this.ns\<close> it provides. The spec lists its capabilities: the
  type-membership test on a node, the extraction of a scalar value by vocabulary key,
  reference resolution, the "ensure array" normalisation of an edge, and the mapping of a
  vocabulary key to the key of the model. The model is an expanded one, in which
  \<open>_getAmfKey\<close> returns the key it is given, and shapes reach the engine dereferenced
  (as the spec assumes), so that \<open>_resolve\<close> finds nothing to copy into the shape.
\<close>

definition ns_apiContract :: string where "ns_apiContract = ''http://a.ml/vocabularies/apiContract#''"
definition ns_core :: string where "ns_core = ''http://a.ml/vocabularies/core#''"
definition ns_shapes :: string where "ns_shapes = ''http://a.ml/vocabularies/shapes#''"
definition ns_document :: string where "ns_document = ''http://a.ml/vocabularies/document#''"
definition ns_data :: string where "ns_data = ''http://a.ml/vocabularies/data#''"
definition ns_shacl :: string where "ns_shacl = ''http://www.w3.org/ns/shacl#''"
definition ns_xmlSchema :: string where "ns_xmlSchema = ''http://www.w3.org/2001/XMLSchema#''"
definition ns_rdfSchema :: string where "ns_rdfSchema = ''http://www.w3.org/2000/01/rdf-schema#''"
definition ns_docSourceMaps :: string where
  "ns_docSourceMaps = ''http://a.ml/vocabularies/document-source-maps#''"

definition apiContract_Payload :: string where "apiContract_Payload = ns_apiContract @ ''Payload''"
definition apiContract_examples :: string where "apiContract_examples = ns_apiContract @ ''examples''"
definition apiContract_Example :: string where "apiContract_Example = ns_apiContract @ ''Example''"
definition core_mediaType :: string where "core_mediaType = ns_core @ ''mediaType''"
definition core_name :: string where "core_name = ns_core @ ''name''"
definition shapes_schema :: string where "shapes_schema = ns_shapes @ ''schema''"
definition shapes_ArrayShape :: string where "shapes_ArrayShape = ns_shapes @ ''ArrayShape''"
definition shapes_UnionShape :: string where "shapes_UnionShape = ns_shapes @ ''UnionShape''"
definition shapes_ScalarShape :: string where "shapes_ScalarShape = ns_shapes @ ''ScalarShape''"
definition shapes_NilShape :: string where "shapes_NilShape = ns_shapes @ ''NilShape''"
definition shapes_items :: string where "shapes_items = ns_shapes @ ''items''"
definition shapes_anyOf :: string where "shapes_anyOf = ns_shapes @ ''anyOf''"
definition shapes_range :: string where "shapes_range = ns_shapes @ ''range''"
definition shapes_xmlName :: string where "shapes_xmlName = ns_shapes @ ''xmlName''"
definition document_NamedExamples :: string where
  "document_NamedExamples = ns_document @ ''NamedExamples''"
definition document_raw :: string where "document_raw = ns_document @ ''raw''"
definition document_structuredValue :: string where
  "document_structuredValue = ns_document @ ''structuredValue''"
definition data_Scalar :: string where "data_Scalar = ns_data @ ''Scalar''"
definition data_Object :: string where "data_Object = ns_data @ ''Object''"
definition data_Array :: string where "data_Array = ns_data @ ''Array''"
definition data_value :: string where "data_value = ns_data @ ''value''"
definition shacl_name :: string where "shacl_name = ns_shacl @ ''name''"
definition shacl_property :: string where "shacl_property = ns_shacl @ ''property''"
definition shacl_raw :: string where "shacl_raw = ns_shacl @ ''raw''"
definition shacl_datatype :: string where "shacl_datatype = ns_shacl @ ''datatype''"
definition shacl_defaultValue :: string where "shacl_defaultValue = ns_shacl @ ''defaultValue''"
definition shacl_defaultValueStr :: string where
  "shacl_defaultValueStr = ns_shacl @ ''defaultValueStr''"
definition shacl_NodeShape :: string where "shacl_NodeShape = ns_shacl @ ''NodeShape''"
definition rdfSchema_member :: string where "rdfSchema_member = ns_rdfSchema @ ''member''"
definition docSourceMaps_sources :: string where
  "docSourceMaps_sources = ns_docSourceMaps @ ''sources''"
definition docSourceMaps_parsedJsonSchema :: string where
  "docSourceMaps_parsedJsonSchema = ns_docSourceMaps @ ''parsed-json-schema''"
definition docSourceMaps_trackedElement :: string where
  "docSourceMaps_trackedElement = ns_docSourceMaps @ ''tracked-element''"
definition docSourceMaps_value :: string where
  "docSourceMaps_value = ns_docSourceMaps @ ''value''"

text \<open>
  \<open>_ensureArray(value)\<close>: nothing for a falsy value, an array as it is, any other value
  as a one-element array.
\<close>

definition ensureArray :: "jsval \<Rightarrow> jsval list option" where
  "ensureArray v = (if falsy v then None else (case v of JArr xs \<Rightarrow> Some xs | _ \<Rightarrow> Some [v]))"

text \<open>\<open>_hasType(model, type)\<close>: the key is among the entries of \<open>model['@type']\<close>.\<close>

definition hasType :: "jsval \<Rightarrow> string \<Rightarrow> bool" where
  "hasType model t =
     (case ensureArray (if truthy model then lookup_js model ''@type'' else model) of
        None \<Rightarrow> False
      | Some ts \<Rightarrow> JStr t \<in> set ts)"

text \<open>
  \<open>_getValue(model, key)\<close>: the value under the key, the first entry when that is an
  array, and its \<open>@value\<close> when that is an object. A falsy model or entry is returned as
  it is.
\<close>

definition getValue :: "jsval \<Rightarrow> string \<Rightarrow> jsval" where
  "getValue model k =
     (let data = (if truthy model then lookup_js model k else model) in
      if falsy data then data
      else (let data = unwrap data in
        if falsy data then JUndefined
        else if typeof_primitive data then data
        else lookup_js data ''@value''))"

text \<open>\<open>_hasProperty(shape, key)\<close> is \<open>!!(shape && key && key in shape)\<close>; the operator \<open>in\<close>
  throws on a primitive.\<close>

definition hasProperty :: "jsval \<Rightarrow> string \<Rightarrow> bool js" where
  "hasProperty shape k =
     (if falsy shape \<or> k = [] then Some False
      else (case shape of
          JObj kvs \<Rightarrow> Some (k \<in> fst ` set kvs)
        | JArr xs \<Rightarrow> Some False
        | _ \<Rightarrow> None))"

definition resolve :: "jsval \<Rightarrow> jsval" where
  "resolve shape = shape"

text \<open>The entries of an object, as \<open>Object.keys\<close> visits them (the keys are distinct).\<close>

definition obj_entries :: "jsval \<Rightarrow> (string \<times> jsval) list" where
  "obj_entries v = (case v of JObj kvs \<Rightarrow> kvs | _ \<Rightarrow> [])"

text \<open>
  \<open>obj[k] = v\<close> on an object that the engine has built from \<open>{}\<close>. A key that the object
  has keeps its place. A new key that is an array index (the decimal numeral of a number
  below \<open>2^32 - 1\<close>) is enumerated in ascending order with the other array indices, before
  every other key; any other new key is enumerated last. An assignment to \<open>__proto__\<close>
  reaches the setter of \<open>Object.prototype\<close> and adds no property.
\<close>

fun assoc_set :: "string \<Rightarrow> jsval \<Rightarrow> (string \<times> jsval) list \<Rightarrow> (string \<times> jsval) list" where
  "assoc_set k v [] = [(k, v)]"
| "assoc_set k v ((k', w) # kvs) = (if k' = k then (k, v) # kvs else (k', w) # assoc_set k v kvs)"

definition digit_value :: "char \<Rightarrow> int option" where
  "digit_value c = map_of (zip ''0123456789'' [0, 1, 2, 3, 4, 5, 6, 7, 8, 9]) c"

definition index_value :: "string \<Rightarrow> int" where
  "index_value s = fold (\<lambda>c n. 10 * n + (case digit_value c of Some d \<Rightarrow> d | None \<Rightarrow> 0)) s 0"

definition is_index :: "string \<Rightarrow> bool" where
  "is_index s = (s \<noteq> [] \<and> list_all (\<lambda>c. digit_value c \<noteq> None) s \<and>
     (s = ''0'' \<or> hd s \<noteq> CHR ''0'') \<and> length s \<le> 10 \<and> index_value s < 4294967295)"

fun insert_index :: "string \<Rightarrow> jsval \<Rightarrow> (string \<times> jsval) list \<Rightarrow> (string \<times> jsval) list" where
  "insert_index k v [] = [(k, v)]"
| "insert_index k v ((k', w) # kvs) =
     (if is_index k' \<and> index_value k' < index_value k then (k', w) # insert_index k v kvs
      else (k, v) # (k', w) # kvs)"

definition obj_set :: "string \<Rightarrow> jsval \<Rightarrow> jsval \<Rightarrow> jsval" where
  "obj_set k v obj = (case obj of
      JObj kvs \<Rightarrow>
        (if k = ''__proto__'' then obj
         else if k \<in> fst ` set kvs then JObj (assoc_set k v kvs)
         else if is_index k then JObj (insert_index k v kvs)
         else JObj (kvs @ [(k, v)]))
    | _ \<Rightarrow> obj)"

text \<open>\<open>obj[obj.length] = v\<close> on an array.\<close>

definition arr_push :: "jsval \<Rightarrow> jsval \<Rightarrow> jsval" where
  "arr_push v obj = (case obj of JArr xs \<Rightarrow> JArr (xs @ [v]) | _ \<Rightarrow> obj)"
section \<open>Value coercion\<close>

text \<open>\<open>_typeToValue(value, type)\<close>: the \<open>switch\<close> over the datatype identifiers.\<close>

definition xsd_boolean :: string where "xsd_boolean = ns_xmlSchema @ ''boolean''"
definition xsd_nil :: string where "xsd_nil = ns_xmlSchema @ ''nil''"
definition xsd_integer :: string where "xsd_integer = ns_xmlSchema @ ''integer''"
definition xsd_number :: string where "xsd_number = ns_xmlSchema @ ''number''"
definition xsd_long :: string where "xsd_long = ns_xmlSchema @ ''long''"
definition xsd_double :: string where "xsd_double = ns_xmlSchema @ ''double''"
definition xsd_float :: string where "xsd_float = ns_xmlSchema @ ''float''"
definition shapes_boolean :: string where "shapes_boolean = ns_shapes @ ''boolean''"
definition shapes_nil :: string where "shapes_nil = ns_shapes @ ''nil''"
definition shapes_integer :: string where "shapes_integer = ns_shapes @ ''integer''"
definition shapes_number :: string where "shapes_number = ns_shapes @ ''number''"
definition shapes_long :: string where "shapes_long = ns_shapes @ ''long''"
definition shapes_double :: string where "shapes_double = ns_shapes @ ''double''"
definition shapes_float :: string where "shapes_float = ns_shapes @ ''float''"

definition typeToValue :: "env \<Rightarrow> jsval \<Rightarrow> jsval \<Rightarrow> jsval" where
  "typeToValue E v ty =
     (if ty \<in> JStr ` {xsd_boolean, shapes_boolean} then
        (if v = JUndefined then v else JBool (strict_eq v (JStr ''true'')))
      else if ty \<in> JStr ` {xsd_nil, shapes_nil} then JNull
      else if ty \<in> JStr ` {xsd_integer, shapes_integer, xsd_number, shapes_number, xsd_long,
          shapes_long, xsd_double, shapes_double, xsd_float, shapes_float} then
        (if truthy v then (if is_NaN E v then JNum 0 else to_Number E v) else JNum 0)
      else (if truthy v then v else JStr ''''))"

text \<open>\<open>_getTypedValue(structure)\<close>: the typed literal of a scalar data node.\<close>

definition getTypedValue :: "env \<Rightarrow> jsval \<Rightarrow> jsval js" where
  "getTypedValue E structure = do {
     shape \<leftarrow> js_get structure data_value;
     if falsy shape then Some JUndefined
     else do {
       let shape = unwrap shape;
       v \<leftarrow> (if typeof_object shape then js_get shape ''@value'' else Some shape);
       if falsy v then Some v
       else do {
         let dt = lookup_js shape ''@type'';
         dt \<leftarrow> (if falsy dt then
                 (case ensureArray (lookup_js structure shacl_datatype) of
                    None \<Rightarrow> Some JUndefined
                  | Some dts \<Rightarrow> do { d \<leftarrow> idx0 (JArr dts); js_get d ''@id'' })
               else Some dt);
         if falsy dt then Some (if truthy v then v else JStr '''')
         else Some (typeToValue E v (unwrap dt))
       }
     }
   }"

text \<open>\<open>_computeScalarType(shape)\<close>: the capitalised local name of the declared datatype.\<close>

definition js_substr :: "jsval \<Rightarrow> nat \<Rightarrow> jsval js" where
  "js_substr v n = (case v of JStr s \<Rightarrow> Some (JStr (drop n s)) | _ \<Rightarrow> None)"

definition computeScalarType :: "jsval \<Rightarrow> jsval js" where
  "computeScalarType shape = do {
     dt \<leftarrow> js_get shape shacl_datatype;
     if falsy dt then Some JUndefined
     else do {
       let dt = unwrap dt;
       i \<leftarrow> js_get dt ''@id'';
       let ident = (if truthy i then i else dt);
       w3index \<leftarrow> js_indexOf ident ns_xmlSchema;
       ident \<leftarrow> (if w3index = -1 then Some ident else js_substr ident (length ns_xmlSchema));
       shapeindex \<leftarrow> js_indexOf ident ns_shapes;
       ident \<leftarrow> (if shapeindex = -1 then Some ident else js_substr ident (length ns_shapes));
       index \<leftarrow> js_indexOf ident '':'';
       ident \<leftarrow> (if index = -1 then Some ident else js_substr ident (nat index));
       (case ident of
          JStr (c # cs) \<Rightarrow> Some (JStr (toUpperCase c @ cs))
        | _ \<Rightarrow> None)
     }
   }"

text \<open>\<open>_extractExampleRawValue(example)\<close> and \<open>_getTypeScalarValue(range)\<close>.\<close>

definition extractExampleRawValue :: "jsval \<Rightarrow> jsval" where
  "extractExampleRawValue example =
     (let example = unwrap example;
          example = (if hasType example document_NamedExamples
                     then unwrap (lookup_js example apiContract_examples) else example)
      in getValue example document_raw)"

definition getTypeScalarValue :: "jsval \<Rightarrow> jsval js" where
  "getTypeScalarValue rng = do {
     dv \<leftarrow> js_get rng shacl_defaultValue;
     if truthy dv then Some (getValue (unwrap dv) data_value)
     else do {
       ex \<leftarrow> js_get rng apiContract_examples;
       if truthy ex then Some (extractExampleRawValue ex) else Some JUndefined
     }
   }"

text \<open>
  \<open>_computeJsonScalarValue(range)\<close>: without a literal, the zero value of the declared
  datatype; with one, its coercion.
\<close>

definition computeJsonScalarValue :: "env \<Rightarrow> jsval \<Rightarrow> jsval js" where
  "computeJsonScalarValue E rng = do {
     v \<leftarrow> getTypeScalarValue rng;
     if falsy v then do {
       ty \<leftarrow> computeScalarType rng;
       Some (if ty \<in> JStr ` {''Number'', ''Integer'', ''Long'', ''Float'', ''Double''} then JNum 0
             else if ty = JStr ''Boolean'' then JBool False
             else if ty \<in> JStr ` {''Nil'', ''Null''} then JNull
             else JStr '''')
     }
     else do {
       dt \<leftarrow> js_get rng shacl_datatype;
       if falsy dt then Some (if truthy v then v else JStr '''')
       else do {
         i \<leftarrow> js_get (unwrap dt) ''@id'';
         Some (typeToValue E v i)
       }
     }
   }"

text \<open>
  The zero-value table of the specification (section 4.2), by the local name of the declared
  datatype: \<open>0\<close> for the numeric kinds, \<open>false\<close> for boolean, \<open>null\<close> for nil and null,
  the empty string for any other name and when no datatype is declared.
\<close>

definition zero_value :: "string option \<Rightarrow> jsval" where
  "zero_value d = (case d of
      None \<Rightarrow> JStr []
    | Some name \<Rightarrow>
        (if name \<in> {''integer'', ''number'', ''long'', ''double'', ''float''} then JNum 0
         else if name = ''boolean'' then JBool False
         else if name \<in> {''nil'', ''null''} then JNull
         else JStr []))"

text \<open>
  An expanded datatype identifier is a namespace of the vocabulary (XML Schema or the
  shapes vocabulary) followed by a local name, which has no colon and starts with a letter
  that \<open>toUpperCase\<close> changes. \<open>declaresExpanded shape d\<close> says that the shape declares
  such an identifier with the local name \<open>d\<close> as \<open>shape[datatype][0]['@id']\<close>, or no
  datatype at all.
\<close>

definition local_name :: "string \<Rightarrow> bool" where
  "local_name name = (name \<noteq> [] \<and> CHR '':'' \<notin> set name \<and> toUpperCase (hd name) \<noteq> [hd name])"

definition declaresExpanded :: "jsval \<Rightarrow> string option \<Rightarrow> bool" where
  "declaresExpanded shape d = (case d of
      None \<Rightarrow> falsy (lookup_js shape shacl_datatype)
    | Some name \<Rightarrow> local_name name \<and>
        lookup_js (unwrap (lookup_js shape shacl_datatype)) ''@id''
          \<in> {JStr (ns_xmlSchema @ name), JStr (ns_shapes @ name)})"

section \<open>The JSON example builder\<close>

text \<open>
  \<open>_jsonFromStructure(structure)\<close> walks the structured value of an author example into a
  JavaScript value; \<open>_jsonFromStructureValue\<close> stores one entry into the object or array
  being built and returns it. The key and the prefix are not read when \<open>isArray\<close> is set.
\<close>

lemma size_unwrap: "size (unwrap v) \<le> size v"
  by (auto simp: unwrap_def split: jsval.splits list.splits)

lemma size_map_of: "map_of kvs k = Some w \<Longrightarrow> size w < size (JObj kvs)"
  by (induction kvs) (auto split: if_splits)

lemma size_lookup_js: "lookup_js v k \<noteq> JUndefined \<Longrightarrow> size (lookup_js v k) < size v"
  by (cases v) (auto simp: lookup_js_def split: option.splits dest: size_map_of)

lemma size_entry: "(k, w) \<in> set (obj_entries v) \<Longrightarrow> size w < size v"
proof (cases v)
  case (JObj kvs)
  have "(k, w) \<in> set kvs \<Longrightarrow> size w < Suc (size_list (size_prod (\<lambda>x. 0) size) kvs)"
    by (induction kvs) auto
  with JObj show "(k, w) \<in> set (obj_entries v) \<Longrightarrow> size w < size v"
    by (simp add: obj_entries_def)
qed (simp_all add: obj_entries_def)

lemma size_js_elems: "js_elems v = Some xs \<Longrightarrow> x \<in> set xs \<Longrightarrow> size x \<le> size v"
proof (cases v)
  case (JArr ys)
  have "x \<in> set ys \<Longrightarrow> size x \<le> size_list size ys"
    by (induction ys) auto
  with JArr show "js_elems v = Some xs \<Longrightarrow> x \<in> set xs \<Longrightarrow> size x \<le> size v"
    by (auto simp: js_elems_def)
qed (auto simp: js_elems_def)

lemma js_elems_undefined: "js_elems JUndefined = None"
  by (simp add: js_elems_def)

lemma size_elems_lookup:
  "js_elems (lookup_js s k) = Some xs \<Longrightarrow> x \<in> set xs \<Longrightarrow> size x < size s"
  using size_lookup_js [of s k] size_js_elems [of "lookup_js s k" xs x]
  by (cases "lookup_js s k = JUndefined") (auto simp: js_elems_undefined)

lemma size_unwrap_less: "2 * size (unwrap v) < Suc (2 * size v)"
  using size_unwrap [of v] by simp

function jsonFromStructure :: "env \<Rightarrow> jsval \<Rightarrow> jsval js"
  and jsonFromStructureValue :: "env \<Rightarrow> jsval \<Rightarrow> jsval \<Rightarrow> bool \<Rightarrow> string \<Rightarrow> string \<Rightarrow> jsval js"
where
  "jsonFromStructure E structure =
     (if falsy structure then Some JUndefined
      else if hasType structure data_Scalar then getTypedValue E structure
      else if \<not> hasType structure data_Object \<and> \<not> hasType structure data_Array then Some JUndefined
      else do {
        let isArr = \<not> hasType structure data_Object;
        let obj = (if isArr then JArr [] else JObj []);
        hp \<leftarrow> (if isArr then hasProperty structure rdfSchema_member else Some False);
        if isArr \<and> hp then do {
          items \<leftarrow> js_elems (lookup_js structure rdfSchema_member);
          fold (\<lambda>item acc. do { obj \<leftarrow> acc; jsonFromStructureValue E item obj isArr [] [] })
            items (Some obj)
        }
        else
          fold (\<lambda>(k, v) acc. do { obj \<leftarrow> acc;
                  if str_indexOf k ns_data = 0 then jsonFromStructureValue E v obj isArr k ns_data
                  else Some obj })
            (obj_entries structure) (Some obj)
      })"
| "jsonFromStructureValue E v obj isArr k resolvedPrefix = do {
     tmp \<leftarrow> jsonFromStructure E (unwrap v);
     if tmp = JUndefined then Some obj
     else if isArr then Some (arr_push tmp obj)
     else do {
       let k = remove_first resolvedPrefix k;
       let k = (case k of c # cs \<Rightarrow> (if c = CHR '':'' then cs else k) | [] \<Rightarrow> k);
       let k = (case decodeURIComponent E k of Some d \<Rightarrow> d | None \<Rightarrow> k);
       Some (obj_set k tmp obj)
     }
   }"
  by pat_completeness auto
termination
  by (relation "measure (\<lambda>x. case x of
        Inl (E, structure) \<Rightarrow> 2 * size structure
      | Inr (E, v, obj, isArr, k, p) \<Rightarrow> 2 * size v + 1)")
    (auto simp: size_unwrap_less dest: size_entry size_elems_lookup)

declare jsonFromStructure.simps [simp del] jsonFromStructureValue.simps [simp del]

text \<open>
  The synthesis of a JSON value from the declared properties of an object shape:
  \<open>_jsonExampleFromProperties(properties)\<close>, \<open>_computeJsonProperyValue(range, typeName)\<close>,
  \<open>_computeJsonUnionValue(range, typeName)\<close>, \<open>_computeJsonObjectValue(range)\<close> and
  \<open>_computeJsonArrayValue(range)\<close>. A \<open>for\<close> loop that returns from its body is a fold that
  keeps the value once it is found.
\<close>

lemma size_ensureArray:
  "ensureArray v = Some xs \<Longrightarrow> x \<in> set xs \<Longrightarrow> size x \<le> size v"
proof (cases v)
  case (JArr ys)
  have "x \<in> set ys \<Longrightarrow> size x \<le> size_list size ys"
    by (induction ys) auto
  with JArr show "ensureArray v = Some xs \<Longrightarrow> x \<in> set xs \<Longrightarrow> size x \<le> size v"
    by (auto simp: ensureArray_def split: if_splits)
qed (auto simp: ensureArray_def split: if_splits)

lemma ensureArray_undefined: "ensureArray JUndefined = None"
  by (simp add: ensureArray_def falsy_def)

lemma size_ensureArray_lookup:
  "ensureArray (lookup_js s k) = Some xs \<Longrightarrow> x \<in> set xs \<Longrightarrow> size x < size s"
  using size_lookup_js [of s k] size_ensureArray [of "lookup_js s k" xs x]
  by (cases "lookup_js s k = JUndefined") (auto simp: ensureArray_undefined)

lemma js_get_Some: "js_get v k = Some w \<Longrightarrow> w = lookup_js v k"
  by (simp add: js_get_def split: if_splits)

lemma size_ensureArray_get:
  "js_get s k = Some w \<Longrightarrow> ensureArray w = Some xs \<Longrightarrow> x \<in> set xs \<Longrightarrow> size x < size s"
  using size_ensureArray_lookup js_get_Some by blast

lemma size_get_unwrap:
  "js_get s k = Some w \<Longrightarrow> \<not> falsy w \<Longrightarrow> size (unwrap w) < size s"
  using size_lookup_js [of s k] size_unwrap [of w]
  by (cases "w = JUndefined") (auto simp: falsy_def dest: js_get_Some)

lemma size_member_sum: "x \<in> set xs \<Longrightarrow> size x \<le> sum_list (map size xs)"
  by (induction xs) auto

lemma sum_size_ensureArray:
  "ensureArray v = Some xs \<Longrightarrow> sum_list (map size xs) \<le> size v"
proof (cases v)
  case (JArr ys)
  have "sum_list (map size ys) \<le> size_list size ys"
    by (induction ys) auto
  with JArr show "ensureArray v = Some xs \<Longrightarrow> sum_list (map size xs) \<le> size v"
    by (auto simp: ensureArray_def split: if_splits)
qed (auto simp: ensureArray_def split: if_splits)

lemma sum_size_ensureArray_get:
  "js_get s k = Some w \<Longrightarrow> ensureArray w = Some xs \<Longrightarrow> sum_list (map size xs) < size s"
  using size_lookup_js [of s k] sum_size_ensureArray [of w xs]
  by (cases "w = JUndefined") (auto simp: ensureArray_undefined dest: js_get_Some)

lemma term_union:
  "js_get rng k = Some a \<Longrightarrow> ensureArray a = Some xs \<Longrightarrow> x \<in> set xs \<Longrightarrow>
   js_get (unwrap x) k' = Some b \<Longrightarrow> ensureArray b = Some ys \<Longrightarrow>
   sum_list (map size ys) < size rng"
  using size_ensureArray_get [of rng k a xs x] size_unwrap [of x]
    sum_size_ensureArray_get [of "unwrap x" k' b ys]
  by simp

lemma term_items:
  "js_get rng k = Some a \<Longrightarrow> ensureArray a = Some xs \<Longrightarrow> x \<in> set xs \<Longrightarrow>
   size (unwrap x) < size rng"
  using size_ensureArray_get [of rng k a xs x] size_unwrap [of x]
  by simp

lemma term_props:
  "x \<in> set props \<Longrightarrow> js_get x k = Some a \<Longrightarrow> \<not> falsy a \<Longrightarrow>
   size (unwrap a) < sum_list (map size props)"
  using size_get_unwrap [of x k a] size_member_sum [of x props]
  by simp

function jsonExampleFromProperties :: "env \<Rightarrow> jsval list \<Rightarrow> jsval js"
  and computeJsonProperyValue :: "env \<Rightarrow> jsval \<Rightarrow> jsval \<Rightarrow> jsval js"
  and computeJsonUnionValue :: "env \<Rightarrow> jsval \<Rightarrow> jsval \<Rightarrow> jsval js"
  and computeJsonObjectValue :: "env \<Rightarrow> jsval \<Rightarrow> jsval js"
  and computeJsonArrayValue :: "env \<Rightarrow> jsval \<Rightarrow> jsval js"
where
  "jsonExampleFromProperties E properties =
     fold (\<lambda>property acc. do {
         result \<leftarrow> acc;
         let name = getValue property shacl_name;
         if falsy name then Some result
         else do {
           rng \<leftarrow> js_get property shapes_range;
           if falsy rng then Some result
           else do {
             let rng = unwrap rng;
             ex \<leftarrow> js_get rng apiContract_examples;
             (case ensureArray ex of
                Some examples \<Rightarrow>
                  fold (\<lambda>example acc. do {
                      result \<leftarrow> acc;
                      structure \<leftarrow> js_get example document_structuredValue;
                      if falsy structure then Some (obj_set (str_of E name) (JStr []) result)
                      else do {
                        data \<leftarrow> jsonFromStructure E (unwrap structure);
                        Some (if data = JUndefined then result
                              else obj_set (str_of E name) data result)
                      }
                    }) examples (Some result)
              | None \<Rightarrow> do {
                  v \<leftarrow> computeJsonProperyValue E rng JUndefined;
                  Some (obj_set (str_of E name) (if v = JUndefined then JStr [] else v) result)
                })
           }
         }
       }) properties (Some (JObj []))"
| "computeJsonProperyValue E rng typeName =
     (if hasType rng shapes_ScalarShape then computeJsonScalarValue E rng
      else if hasType rng shapes_UnionShape then computeJsonUnionValue E rng typeName
      else if hasType rng shacl_NodeShape then computeJsonObjectValue E rng
      else if hasType rng shapes_ArrayShape then computeJsonArrayValue E rng
      else if hasType rng shapes_NilShape then Some JNull
      else Some JUndefined)"
| "computeJsonUnionValue E rng typeName = do {
     a \<leftarrow> js_get rng shapes_anyOf;
     (case ensureArray a of
        None \<Rightarrow> Some JUndefined
      | Some list \<Rightarrow> do {
          found \<leftarrow> fold (\<lambda>item acc. do {
              found \<leftarrow> acc;
              (case found of
                 Some r \<Rightarrow> Some (Some r)
               | None \<Rightarrow>
                  (let item = resolve (unwrap item) in
                   if truthy typeName \<and> \<not> strict_eq typeName (getValue item shacl_name)
                   then Some None
                   else if hasType item shacl_NodeShape then do {
                     p \<leftarrow> js_get (resolve item) shacl_property;
                     (case ensureArray p of
                        Some data \<Rightarrow> do { r \<leftarrow> jsonExampleFromProperties E data; Some (Some r) }
                      | None \<Rightarrow> Some None)
                   }
                   else Some None))
            }) list (Some None);
          Some (case found of Some r \<Rightarrow> r | None \<Rightarrow> JUndefined)
        })
   }"
| "computeJsonObjectValue E rng = do {
     p \<leftarrow> js_get rng shacl_property;
     (case ensureArray p of
        Some properties \<Rightarrow>
          (if properties = [] then Some JUndefined else jsonExampleFromProperties E properties)
      | None \<Rightarrow> Some JUndefined)
   }"
| "computeJsonArrayValue E rng = do {
     i \<leftarrow> js_get rng shapes_items;
     (case ensureArray i of
        None \<Rightarrow> Some JUndefined
      | Some items \<Rightarrow> do {
          result \<leftarrow> fold (\<lambda>item acc. do {
              result \<leftarrow> acc;
              v \<leftarrow> computeJsonProperyValue E (resolve (unwrap item)) JUndefined;
              Some (if v = JUndefined then result else result @ [v])
            }) items (Some []);
          Some (JArr result)
        })
   }"
  by pat_completeness auto
termination
  by (relation "measure (\<lambda>x. case x of
        Inl (Inl (E, props)) \<Rightarrow> 4 * sum_list (map size props)
      | Inl (Inr (E, r, t)) \<Rightarrow> 4 * size r + 3
      | Inr (Inl (E, r, t)) \<Rightarrow> 4 * size r + 2
      | Inr (Inr (Inl (E, r))) \<Rightarrow> 4 * size r + 2
      | Inr (Inr (Inr (E, r))) \<Rightarrow> 4 * size r + 2)")
    (auto simp: resolve_def dest: term_union term_items term_props sum_size_ensureArray_get)

declare jsonExampleFromProperties.simps [simp del] computeJsonProperyValue.simps [simp del]
  computeJsonUnionValue.simps [simp del] computeJsonObjectValue.simps [simp del]
  computeJsonArrayValue.simps [simp del]

section \<open>The output model and the options\<close>

text \<open>
  An \<open>ExampleModel\<close> object. A property the code never assigns is \<open>None\<close>; \<open>hasTitle\<close> and
  \<open>hasUnion\<close> are assigned on every path before the object is returned.
\<close>

datatype vm = VM
  (vm_hasRaw: "bool option")
  (vm_hasTitle: bool)
  (vm_hasUnion: bool)
  (vm_value: "jsval option")
  (vm_title: "jsval option")
  (vm_raw: "jsval option")
  (vm_values: "vm list option")
  (vm_isScalar: "bool option")

definition set_hasRaw :: "bool \<Rightarrow> vm \<Rightarrow> vm" where
  "set_hasRaw b r = (case r of VM hr ht hu v t rw vs sc \<Rightarrow> VM (Some b) ht hu v t rw vs sc)"

definition set_value :: "jsval \<Rightarrow> vm \<Rightarrow> vm" where
  "set_value x r = (case r of VM hr ht hu v t rw vs sc \<Rightarrow> VM hr ht hu (Some x) t rw vs sc)"

definition set_raw :: "jsval \<Rightarrow> vm \<Rightarrow> vm" where
  "set_raw x r = (case r of VM hr ht hu v t rw vs sc \<Rightarrow> VM hr ht hu v t (Some x) vs sc)"

definition set_isScalar :: "bool \<Rightarrow> vm \<Rightarrow> vm" where
  "set_isScalar b r = (case r of VM hr ht hu v t rw vs sc \<Rightarrow> VM hr ht hu v t rw vs (Some b))"

definition set_title :: "jsval \<Rightarrow> vm \<Rightarrow> vm" where
  "set_title x r = (case r of VM hr ht hu v t rw vs sc \<Rightarrow> VM hr True hu v (Some x) rw vs sc)"

definition set_values :: "vm list \<Rightarrow> vm \<Rightarrow> vm" where
  "set_values xs r = (case r of VM hr ht hu v t rw vs sc \<Rightarrow> VM hr ht hu v t rw (Some xs) sc)"

text \<open>
  Which properties a view model has, after the output model (specification, section 3):
  a union has a non-empty list of view models and neither \<open>value\<close> nor \<open>raw\<close>; any other
  view model has \<open>value\<close>, has \<open>raw\<close> exactly when \<open>hasRaw\<close> is true and \<open>title\<close> exactly
  when \<open>hasTitle\<close> is true. A property is there once the engine has assigned it, also when
  the assigned value is \<open>undefined\<close>.
\<close>

fun vm_assigned :: "vm \<Rightarrow> bool" where
  "vm_assigned (VM hr ht hu v t rw vs sc) =
     (if hu then (case vs of Some xs \<Rightarrow> xs \<noteq> [] \<and> list_all vm_assigned xs | None \<Rightarrow> False) \<and>
                 v = None \<and> rw = None
      else v \<noteq> None \<and> ((rw \<noteq> None) = (hr = Some True)) \<and> ((t \<noteq> None) = ht))"

text \<open>
  The processing options. \<open>rawOnly\<close> and \<open>noAuto\<close> are documented as booleans; the names
  and the identifier are values read from the model.
\<close>

record opts =
  o_rawOnly :: bool
  o_noAuto :: bool
  o_typeName :: jsval
  o_parentName :: jsval
  o_typeId :: jsval

definition empty_opts :: opts where
  "empty_opts = \<lparr>o_rawOnly = False, o_noAuto = False, o_typeName = JUndefined,
     o_parentName = JUndefined, o_typeId = JUndefined\<rparr>"

definition UNKNOWN_TYPE :: string where
  "UNKNOWN_TYPE = ''unknown-type''"

definition xml_header :: string where
  "xml_header = ''<?xml version='' @ [CHR 0x22] @ ''1.0'' @ [CHR 0x22] @ '' encoding='' @
     [CHR 0x22] @ ''UTF-8'' @ [CHR 0x22] @ ''?>''"

section \<open>The example selector\<close>

text \<open>
  The tree-markup functions: \<open>_xmlExampleFromProperties(properties, typeName, parentType)\<close>
  returns the serialised document, \<open>_xmlFromStructure(structure, opts)\<close> the formatted
  one, \<open>formatXml(xml)\<close> the pretty-printed text.
\<close>

definition xmlExampleFromProperties :: "env \<Rightarrow> jsval list \<Rightarrow> jsval \<Rightarrow> jsval \<Rightarrow> jsval js" where
  "xmlExampleFromProperties E properties typeName parentType =
     dom_xmlExampleFromProperties E properties typeName parentType"

definition xmlFromStructure :: "env \<Rightarrow> jsval \<Rightarrow> opts \<Rightarrow> jsval js" where
  "xmlFromStructure E structure opts = dom_xmlFromStructure E structure (o_typeName opts)"

definition formatXml :: "env \<Rightarrow> string \<Rightarrow> string" where
  "formatXml E xml = dom_formatXml E xml"

text \<open>\<open>_exampleFromProperties(properties, mime, typeName, parentType)\<close>.\<close>

definition exampleFromProperties ::
  "env \<Rightarrow> jsval list \<Rightarrow> jsval \<Rightarrow> jsval \<Rightarrow> jsval \<Rightarrow> vm option js" where
  "exampleFromProperties E properties mime typeName parentType = do {
     let typeName = (if truthy typeName then typeName else JStr UNKNOWN_TYPE);
     j \<leftarrow> js_indexOf mime ''json'';
     result \<leftarrow>
       (if j = -1 then do {
          x \<leftarrow> js_indexOf mime ''xml'';
          if x = -1 then Some JUndefined
          else do {
            r \<leftarrow> xmlExampleFromProperties E properties typeName parentType;
            Some (if truthy r then JStr (formatXml E (xml_header @ str_of E r)) else r)
          }
        }
        else do {
          v \<leftarrow> jsonExampleFromProperties E properties;
          Some (if truthy v then JSON_stringify E v else JUndefined)
        });
     Some (if truthy result
           then Some (VM (Some False) False False (Some result) None None None None)
           else None)
   }"

text \<open>\<open>_readJsonSchema(schema)\<close> and \<open>_exampleFromJsonSchema(schema, jsonSchema)\<close>.\<close>

definition readJsonSchema :: "jsval \<Rightarrow> jsval js" where
  "readJsonSchema schema = do {
     sm \<leftarrow> js_get schema docSourceMaps_sources;
     if falsy sm then Some JUndefined
     else do {
       tracked \<leftarrow> js_get (unwrap sm) docSourceMaps_parsedJsonSchema;
       if falsy tracked then Some JUndefined
       else Some (getValue (unwrap tracked) docSourceMaps_value)
     }
   }"

definition exampleFromJsonSchema :: "env \<Rightarrow> jsval \<Rightarrow> jsval \<Rightarrow> vm list js" where
  "exampleFromJsonSchema E schema jsonSchema = do {
     p \<leftarrow> js_get schema shacl_property;
     example \<leftarrow>
       (case ensureArray p of
          Some properties \<Rightarrow>
            (if properties = [] then Some None
             else (let typeName = getValue schema shacl_name in
               exampleFromProperties E properties (JStr ''application/json'')
                 (if truthy typeName then typeName else JStr UNKNOWN_TYPE) JUndefined))
        | None \<Rightarrow> Some None);
     Some [case example of
             Some ex \<Rightarrow> set_raw jsonSchema (set_hasRaw True ex)
           | None \<Rightarrow> VM (Some False) False False (Some jsonSchema) None None None None]
   }"

text \<open>
  \<open>_processExamples(examples)\<close>: a single named-examples wrapper is replaced by the list
  it holds.
\<close>

definition processExamples :: "jsval \<Rightarrow> jsval list option" where
  "processExamples examples =
     (case examples of
        JArr xs \<Rightarrow>
          (case xs of
             [x] \<Rightarrow> (if hasType x document_NamedExamples
                      then ensureArray (lookup_js x apiContract_examples) else Some xs)
           | _ \<Rightarrow> Some xs)
      | _ \<Rightarrow> (if hasType examples document_NamedExamples
               then ensureArray (lookup_js examples apiContract_examples) else None))"

text \<open>
  \<open>_listTypeExamples(examples, typeId)\<close>: the examples without a tracked element, and
  those whose tracked element lists the identifier. An empty selection is \<open>undefined\<close>.
\<close>

definition js_split :: "jsval \<Rightarrow> string list js" where
  "js_split v = (case v of JStr s \<Rightarrow> Some (split_on (CHR '','') s) | _ \<Rightarrow> None)"

definition listTypeExamples :: "env \<Rightarrow> jsval list option \<Rightarrow> jsval \<Rightarrow> jsval list option js" where
  "listTypeExamples E examples typeId =
     (if falsy typeId then Some examples
      else do {
        i \<leftarrow> js_indexOf typeId ''amf'';
        let longId = (if i = -1 then JStr (''amf://id'' @ str_of E typeId) else typeId);
        xs \<leftarrow> examples;
        result \<leftarrow> fold (\<lambda>example acc. do {
            result \<leftarrow> acc;
            let example = unwrap example;
            sm \<leftarrow> js_get example docSourceMaps_sources;
            if falsy sm then Some (result @ [example])
            else do {
              tracked \<leftarrow> js_get (unwrap sm) docSourceMaps_trackedElement;
              if falsy tracked then Some (result @ [example])
              else (let v = getValue (unwrap tracked) docSourceMaps_value in
                if falsy v then Some result
                else do {
                  ids \<leftarrow> js_split v;
                  Some (if longId \<in> JStr ` set ids \<or> typeId \<in> JStr ` set ids
                        then result @ [example] else result)
                })
            }
          }) xs (Some []);
        Some (if result = [] then None else Some result)
      })"

text \<open>\<open>_generateFromExample(example, mime, opts)\<close>.\<close>

definition raw_is_markup :: "jsval \<Rightarrow> bool js" where
  "raw_is_markup rw = (case rw of JStr s \<Rightarrow> Some (take 1 (js_trim s) = ''<'') | _ \<Rightarrow> None)"

definition raw_is_json :: "env \<Rightarrow> jsval \<Rightarrow> bool" where
  "raw_is_json E rw = (case JSON_parse E rw of None \<Rightarrow> False | Some res \<Rightarrow> \<not> typeof_primitive res)"

text \<open>
  The first statements of \<open>_generateFromExample\<close>: the raw text is read from the document
  vocabulary or else from the shapes vocabulary; the title is the name of the example,
  unless it starts with \<open>example_\<close>.
\<close>

definition exampleRaw :: "jsval \<Rightarrow> jsval" where
  "exampleRaw example =
     (let rw = getValue example document_raw in
      if falsy rw then getValue example shacl_raw else rw)"

definition exampleTitle :: "jsval \<Rightarrow> jsval js" where
  "exampleTitle example =
     (let title = getValue example core_name in
      if truthy title
      then do { i \<leftarrow> js_indexOf title ''example_''; Some (if i = 0 then JUndefined else title) }
      else Some title)"

definition generateFromExample :: "env \<Rightarrow> jsval \<Rightarrow> jsval \<Rightarrow> opts \<Rightarrow> vm option js" where
  "generateFromExample E example mime opts = do {
     let rw = exampleRaw example;
     title \<leftarrow> exampleTitle example;
     let hasRaw = truthy rw;
     let result = VM None (truthy title) False None (if truthy title then Some title else None)
                    None None None;
     if o_rawOnly opts \<and> falsy rw then Some None
     else if o_rawOnly opts then
       Some (Some (set_isScalar False (set_value rw (set_hasRaw False result))))
     else do {
       j \<leftarrow> js_indexOf mime ''json'';
       let isJson = (j \<noteq> -1);
       x \<leftarrow> js_indexOf mime ''xml'';
       let isXml = (\<not> isJson \<and> x \<noteq> -1);
       usable \<leftarrow> (if hasRaw \<and> isJson \<and> raw_is_json E rw then Some True
                  else if hasRaw \<and> isXml then raw_is_markup rw
                  else Some False);
       if usable then
         Some (Some (set_isScalar False (set_value rw (set_hasRaw False result))))
       else do {
         let result = (if hasRaw then set_raw rw (set_hasRaw True result) else result);
         let fallback = (case vm_raw result of Some r \<Rightarrow> r | None \<Rightarrow> JStr []);
         structure \<leftarrow> js_get example document_structuredValue;
         if falsy structure then
           Some (Some (set_isScalar False (set_value fallback result)))
         else (let structure = unwrap structure in
           if hasType structure data_Scalar then do {
             v \<leftarrow> getTypedValue E structure;
             Some (Some (set_isScalar True (set_value v result)))
           }
           else (let result = set_isScalar False result in
             if isJson then do {
               data \<leftarrow> jsonFromStructure E structure;
               if truthy data then
                 Some (Some (set_value
                   (if typeof_object data then JSON_stringify E data else data) result))
               else Some None
             }
             else if isXml then do {
               data \<leftarrow> xmlFromStructure E structure opts;
               Some (Some (set_value data result))
             }
             else Some (Some (set_value fallback result))))
       }
     }
   }"

text \<open>
  \<open>_computeFromExamples(examples, mime, opts)\<close>: one view model for every selected example
  that generates one.
\<close>

definition computeFromExamples :: "env \<Rightarrow> jsval list \<Rightarrow> jsval \<Rightarrow> opts \<Rightarrow> vm list option js" where
  "computeFromExamples E examples mime opts = do {
     ex \<leftarrow> listTypeExamples E (processExamples (JArr examples)) (o_typeId opts);
     (case ex of
        None \<Rightarrow> Some None
      | Some xs \<Rightarrow> do {
          result \<leftarrow> fold (\<lambda>shape acc. do {
              result \<leftarrow> acc;
              v \<leftarrow> generateFromExample E shape mime opts;
              Some (case v of Some x \<Rightarrow> result @ [x] | None \<Rightarrow> result)
            }) xs (Some []);
          Some (Some result)
        })
   }"

text \<open>
  \<open>_processJsonArrayExamples(examples)\<close> puts brackets around the value of every example,
  and around the value of the first entry of a union's list. The two branches of the source
  do the same to the object that holds the value, which is \<open>bracketValue\<close>.
\<close>

definition bracketValue :: "env \<Rightarrow> vm \<Rightarrow> vm js" where
  "bracketValue E x =
     (case vm_value x of
        None \<Rightarrow> Some x
      | Some v \<Rightarrow>
          (if v = JUndefined then Some x
           else do {
             c \<leftarrow> idx0 v;
             if strict_eq c (JStr ''['') then Some x
             else (let v = (if v = JStr [] then JStr [CHR 0x22, CHR 0x22] else v) in
               Some (set_value (JStr (''['' @ str_of E v @ '']'')) x))
           }))"

definition processJsonArrayItem :: "env \<Rightarrow> vm \<Rightarrow> vm js" where
  "processJsonArrayItem E item =
     (case vm_values item of
        Some vs \<Rightarrow>
          (case vs of
             [] \<Rightarrow> None
           | v0 # rest \<Rightarrow> do { v0' \<leftarrow> bracketValue E v0; Some (set_values (v0' # rest) item) })
      | None \<Rightarrow> bracketValue E item)"

definition processJsonArrayExamples :: "env \<Rightarrow> vm list \<Rightarrow> vm list js" where
  "processJsonArrayExamples E examples = those (map (processJsonArrayItem E) examples)"

text \<open>
  \<open>computeExamples(schema, mime, opts)\<close>, \<open>_computeExampleArraySchape(schema, mime, opts)\<close>
  and \<open>_computeUnionExamples(schema, mime, opts)\<close>. The options object is shared and
  assigned to along the recursion, so every function returns it next to its result. The
  result is \<open>None\<close> for \<open>undefined\<close>.
\<close>

text \<open>\<open>if (!opts) { opts = {}; }\<close>\<close>

definition opts_or_empty :: "opts option \<Rightarrow> opts" where
  "opts_or_empty opts0 = (case opts0 of None \<Rightarrow> empty_opts | Some given \<Rightarrow> given)"

text \<open>
  The first statement of \<open>computeExamples\<close> after its guard: without a type name in the
  options, the name of the schema becomes the type name, unless it is the name of an
  inline type.
\<close>

definition readTypeName :: "jsval \<Rightarrow> opts \<Rightarrow> opts js" where
  "readTypeName schema opts =
     (if falsy (o_typeName opts) then
        (let typeName = getValue schema shacl_name in
         if truthy typeName then do {
           i \<leftarrow> js_indexOf typeName ''amf_inline_type'';
           Some (if i = 0 then opts else opts\<lparr>o_typeName := typeName\<rparr>)
         }
         else Some opts)
      else Some opts)"

lemma in_set_enumerate: "(i, x) \<in> set (enumerate n xs) \<Longrightarrow> x \<in> set xs"
  by (induction xs arbitrary: n) auto

function computeExamples ::
    "env \<Rightarrow> jsval \<Rightarrow> jsval \<Rightarrow> opts option \<Rightarrow> (vm list option \<times> opts) js"
  and computeExampleArraySchape ::
    "env \<Rightarrow> jsval \<Rightarrow> jsval \<Rightarrow> opts \<Rightarrow> (vm list option \<times> opts) js"
  and computeUnionExamples ::
    "env \<Rightarrow> jsval \<Rightarrow> jsval \<Rightarrow> opts \<Rightarrow> (vm list option \<times> opts) js"
where
  "computeExamples E schema mime opts0 =
     (let opts = opts_or_empty opts0 in
      if falsy schema \<or> (falsy mime \<and> \<not> o_rawOnly opts) then Some (None, opts)
      else do {
        let schema = resolve schema;
        opts \<leftarrow> readTypeName schema opts;
        e \<leftarrow> js_get schema apiContract_examples;
        (case ensureArray e of
           Some examples \<Rightarrow> do {
             r \<leftarrow> computeFromExamples E examples mime opts;
             Some (r, opts)
           }
         | None \<Rightarrow> do {
             jsonSchema \<leftarrow> readJsonSchema schema;
             if truthy jsonSchema then do {
               r \<leftarrow> exampleFromJsonSchema E schema jsonSchema;
               Some (Some r, opts)
             }
             else if o_rawOnly opts then Some (None, opts)
             else do {
               (av, opts) \<leftarrow>
                 (if hasType schema shapes_ArrayShape
                  then computeExampleArraySchape E schema mime opts
                  else Some (None, opts));
               (case av of
                  Some v \<Rightarrow> Some (Some v, opts)
                | None \<Rightarrow> do {
                    ev \<leftarrow> (if hasType schema apiContract_Example
                           then generateFromExample E schema mime opts
                           else Some None);
                    (case ev of
                       Some v \<Rightarrow> Some (Some [v], opts)
                     | None \<Rightarrow>
                        (if hasType schema shapes_UnionShape
                         then computeUnionExamples E schema mime opts
                         else if o_noAuto opts then Some (None, opts)
                         else if hasType schema shapes_ScalarShape then do {
                           result \<leftarrow> computeJsonScalarValue E schema;
                           Some (Some [VM (Some False) False False (Some result) None None None
                                         (Some True)], opts)
                         }
                         else do {
                           p \<leftarrow> js_get schema shacl_property;
                           (case ensureArray p of
                              Some properties \<Rightarrow>
                                (if properties = [] then Some (None, opts)
                                 else do {
                                   v \<leftarrow> exampleFromProperties E properties mime
                                          (o_typeName opts) (o_parentName opts);
                                   Some (case v of Some x \<Rightarrow> Some [x] | None \<Rightarrow> None, opts)
                                 })
                            | None \<Rightarrow> Some (None, opts))
                         }))
                  })
             }
           })
      })"
| "computeExampleArraySchape E schema mime opts = do {
     i \<leftarrow> js_get schema shapes_items;
     (case ensureArray i of
        None \<Rightarrow> Some (None, opts)
      | Some items \<Rightarrow> do {
          j \<leftarrow> js_indexOf mime ''json'';
          let isJson = (j \<noteq> -1);
          let opts = opts\<lparr>o_parentName := o_typeName opts, o_typeName := JUndefined\<rparr>;
          fold (\<lambda>item acc. do {
              (found, opts) \<leftarrow> acc;
              (case found of
                 Some r \<Rightarrow> Some (found, opts)
               | None \<Rightarrow> do {
                   (result, opts) \<leftarrow> computeExamples E item mime (Some opts);
                   (case result of
                      None \<Rightarrow> Some (None, opts)
                    | Some r \<Rightarrow> do {
                        r \<leftarrow> (if isJson then processJsonArrayExamples E r else Some r);
                        Some (Some r, opts)
                      })
                 })
            }) items (Some (None, opts))
        })
   }"
| "computeUnionExamples E schema mime opts = do {
     a \<leftarrow> js_get schema shapes_anyOf;
     (case ensureArray a of
        None \<Rightarrow> Some (None, opts)
      | Some anyOf \<Rightarrow> do {
          (vals, opts) \<leftarrow> fold (\<lambda>(i, unionSchape) acc. do {
              (vals, opts) \<leftarrow> acc;
              let unionSchape = resolve (unwrap unionSchape);
              (data, opts) \<leftarrow> computeExamples E unionSchape mime (Some opts);
              (case data of
                 None \<Rightarrow> Some (vals, opts)
               | Some ds \<Rightarrow>
                  (let name = getValue unionSchape shacl_name;
                       name = (if falsy name then JStr (''Union #'' @ nat_to_string (i + 1))
                               else name)
                   in case ds of
                        [] \<Rightarrow> None
                      | d # rest \<Rightarrow> Some (vals @ [set_title name d], opts)))
            }) (enumerate 0 anyOf) (Some ([], opts));
          Some (if vals = [] then None
                else Some [VM (Some False) False True None None None (Some vals) None], opts)
        })
   }"
  by pat_completeness auto
termination
  by (relation "measure (\<lambda>x. case x of
        Inl (E, schema, mime, opts) \<Rightarrow> 2 * size schema + 1
      | Inr (Inl (E, schema, mime, opts)) \<Rightarrow> 2 * size schema
      | Inr (Inr (E, schema, mime, opts)) \<Rightarrow> 2 * size schema)")
    (auto simp: resolve_def dest: term_items size_ensureArray_get in_set_enumerate)

declare computeExamples.simps [simp del] computeExampleArraySchape.simps [simp del]
  computeUnionExamples.simps [simp del]

section \<open>The entry points for payloads\<close>

text \<open>
  \<open>generatePayloadExamples(payload, mime, opts)\<close> assigns \<open>opts.typeId\<close>, which throws
  when no options object is given.
\<close>

definition generatePayloadExamples ::
  "env \<Rightarrow> jsval \<Rightarrow> jsval \<Rightarrow> opts option \<Rightarrow> (vm list option \<times> opts option) js" where
  "generatePayloadExamples E payload mime opts0 =
     (if hasType payload apiContract_Payload then do {
        let payload = resolve payload;
        schema \<leftarrow> js_get payload shapes_schema;
        if falsy schema then Some (None, opts0)
        else do {
          i \<leftarrow> js_get payload ''@id'';
          opts \<leftarrow> opts0;
          (r, opts) \<leftarrow> computeExamples E (unwrap schema) mime (Some (opts\<lparr>o_typeId := i\<rparr>));
          Some (r, Some opts)
        }
      }
      else Some (None, opts0))"

text \<open>
  \<open>generatePayloadsExamples(payloads, media, opts)\<close>: the loop skips a payload whose media
  type is not the requested one, and stops at the first payload it does not skip.
\<close>

text \<open>\<open>if (!(payloads instanceof Array)) { payloads = [payloads]; }\<close>\<close>

definition payloadList :: "jsval \<Rightarrow> jsval list" where
  "payloadList payloads = (case payloads of JArr xs \<Rightarrow> xs | _ \<Rightarrow> [payloads])"

text \<open>
  \<open>result = this.generatePayloadExamples(payload, media, opts); break;\<close> with the options
  object of the caller, which the callee has assigned to.
\<close>

definition delegate :: "env \<Rightarrow> jsval \<Rightarrow> jsval \<Rightarrow> opts \<Rightarrow> (vm list option \<times> opts) js" where
  "delegate E payload media opts = do {
     (r, opts') \<leftarrow> generatePayloadExamples E payload media (Some opts);
     Some (r, opts_or_empty opts')
   }"

definition generatePayloadsExamples ::
  "env \<Rightarrow> jsval \<Rightarrow> jsval \<Rightarrow> opts option \<Rightarrow> (vm list option \<times> opts) js" where
  "generatePayloadsExamples E payloads media opts0 =
     (let opts = opts_or_empty opts0 in
      if falsy payloads \<or> (falsy media \<and> \<not> o_rawOnly opts) then Some (None, opts)
      else
        (case find (\<lambda>payload. \<not> (truthy media \<and>
                      \<not> strict_eq (getValue payload core_mediaType) media))
                (payloadList payloads) of
           None \<Rightarrow> Some (None, opts)
         | Some payload \<Rightarrow> delegate E payload media opts))"

section \<open>Names in a tree-markup example\<close>

text \<open>
  The functions of the tree-markup builder that name what they emit. They work on a DOM
  element, which is a value here: an element has a name, attributes in the order in which
  they were set, and children. A function that changes the element it is given returns
  the changed element.
\<close>

datatype xnode =
    XText string
  | XElem (x_name: string) (x_attrs: "(string \<times> string) list") (x_children: "xnode list")

text \<open>
  \<open>doc.createElement(name)\<close>, \<open>doc.createTextNode(data)\<close>, \<open>node.appendChild(child)\<close> and
  \<open>node.setAttribute(name, value)\<close>. The DOM throws an \<open>InvalidCharacterError\<close> for a name
  it does not accept; which names it accepts is left to the environment.
\<close>

definition createElement :: "env \<Rightarrow> string \<Rightarrow> xnode js" where
  "createElement E name = (if dom_validName E name then Some (XElem name [] []) else None)"

definition createTextNode :: "env \<Rightarrow> jsval \<Rightarrow> xnode" where
  "createTextNode E d = XText (str_of E d)"

definition appendChild :: "xnode \<Rightarrow> xnode \<Rightarrow> xnode js" where
  "appendChild child node =
     (case node of XElem n attrs cs \<Rightarrow> Some (XElem n attrs (cs @ [child])) | XText s \<Rightarrow> None)"

fun attr_set :: "string \<Rightarrow> string \<Rightarrow> (string \<times> string) list \<Rightarrow> (string \<times> string) list" where
  "attr_set k v [] = [(k, v)]"
| "attr_set k v ((k', w) # kvs) = (if k' = k then (k, v) # kvs else (k', w) # attr_set k v kvs)"

definition setAttribute :: "env \<Rightarrow> string \<Rightarrow> string \<Rightarrow> xnode \<Rightarrow> xnode js" where
  "setAttribute E name v node =
     (case node of
        XElem n attrs cs \<Rightarrow>
          (if dom_validName E name then Some (XElem n (attr_set name v attrs) cs) else None)
      | XText s \<Rightarrow> None)"

text \<open>
  \<open>_normalizeXmlTagName(name)\<close> is \<open>name.replace(/[^a-zA-Z0-9-_]/g, '')\<close>: it keeps the
  letters, the digits, the hyphen and the underscore. Replacing every match of a negated
  character class by the empty string keeps the characters of the class.
\<close>

definition alnum :: string where
  "alnum = ''abcdefghijklmnopqrstuvwxyzABCDEFGHIJKLMNOPQRSTUVWXYZ0123456789''"

definition keep_chars :: "string \<Rightarrow> string \<Rightarrow> string" where
  "keep_chars allowed s = filter (\<lambda>c. c \<in> set allowed) s"

definition normalizeXmlTagName :: "jsval \<Rightarrow> jsval js" where
  "normalizeXmlTagName name =
     (case name of
        JStr s \<Rightarrow> Some (JStr (keep_chars (alnum @ ''-_'') s))
      | _ \<Rightarrow> None)"

text \<open>\<open>_dataNameFromKey(key)\<close> and \<open>_readDataType(shape)\<close>.\<close>

definition dataNameFromKey :: "jsval \<Rightarrow> jsval js" where
  "dataNameFromKey k = do {
     index \<leftarrow> js_indexOf k ''#'';
     if index \<noteq> -1 then js_substr k (nat (index + 1))
     else do {
       index \<leftarrow> js_indexOf k '':'';
       if index \<noteq> -1 then js_substr k (nat (index + 1)) else Some k
     }
   }"

definition readDataType :: "jsval \<Rightarrow> jsval js" where
  "readDataType shape = do {
     dataType \<leftarrow> js_get shape shacl_datatype;
     if falsy dataType then Some JUndefined
     else do {
       i \<leftarrow> js_get (unwrap dataType) ''@id'';
       dataNameFromKey i
     }
   }"

text \<open>
  \<open>_appendXmlAttribute(node, property, range, serialization)\<close>. The name is cleaned by
  \<open>name.replace('?', '')\<close>, which removes the first question mark.
\<close>

definition replace_first :: "string \<Rightarrow> jsval \<Rightarrow> jsval js" where
  "replace_first p v = (case v of JStr s \<Rightarrow> Some (JStr (remove_first p s)) | _ \<Rightarrow> None)"

definition appendXmlAttribute :: "env \<Rightarrow> xnode \<Rightarrow> jsval \<Rightarrow> jsval \<Rightarrow> jsval \<Rightarrow> xnode js" where
  "appendXmlAttribute E node property rng serialization =
     (let name = getValue serialization shapes_xmlName;
          name = (if falsy name then getValue rng shacl_name else name)
      in if falsy name then Some node
         else do {
           q \<leftarrow> js_indexOf name ''?'';
           name \<leftarrow> (if q \<noteq> -1 then replace_first ''?'' name else Some name);
           v \<leftarrow> readDataType rng;
           let v = (if falsy v then JStr [] else v);
           setAttribute E (str_of E name) (str_of E v) node
         })"

text \<open>
  \<open>_appendXmlElement(doc, node, range)\<close>. The name is cleaned by
  \<open>name.replace(/[^a-zA-Z0-9-]*/g, '')\<close>, which keeps the letters, the digits and the
  hyphen. The result is the node with its new child, and the new element (nothing for a
  range without a name).
\<close>

definition appendXmlElement :: "env \<Rightarrow> xnode \<Rightarrow> jsval \<Rightarrow> (xnode \<times> xnode option) js" where
  "appendXmlElement E node rng =
     (let name = getValue rng shacl_name in
      if falsy name then Some (node, None)
      else do {
        let nodeValue = getValue rng shacl_defaultValueStr;
        nodeValue \<leftarrow> (if falsy nodeValue then do {
            example \<leftarrow> js_get rng apiContract_examples;
            Some (if truthy example then extractExampleRawValue example else nodeValue)
          } else Some nodeValue);
        let nodeValue = (if falsy nodeValue then JStr '' '' else nodeValue);
        name \<leftarrow> (case name of
            JStr s \<Rightarrow> Some (keep_chars (alnum @ ''-'') s)
          | _ \<Rightarrow> None);
        element \<leftarrow> createElement E name;
        element \<leftarrow> (if truthy nodeValue then appendChild (createTextNode E nodeValue) element
                    else Some element);
        node \<leftarrow> appendChild element node;
        Some (node, Some element)
      })"

section \<open>Properties of a shape's subgraph\<close>

text \<open>
  \<open>all_sub P v\<close>: the property holds of the value and of every value below it, which is
  every node that the recursion of the engine can reach from a shape.
\<close>

fun all_sub :: "(jsval \<Rightarrow> bool) \<Rightarrow> jsval \<Rightarrow> bool" where
  "all_sub P (JArr xs) = (P (JArr xs) \<and> list_all (all_sub P) xs)"
| "all_sub P (JObj kvs) = (P (JObj kvs) \<and> list_all (\<lambda>(k, v). all_sub P v) kvs)"
| "all_sub P v = P v"

text \<open>
  A node stores no example when it has no examples edge and is no example itself. It has
  no JSON-Schema fragment when \<open>_readJsonSchema\<close> finds none. Its name can be read when
  \<open>indexOf\<close> is defined on it (a string in a model, or no name at all).
\<close>

definition no_example :: "jsval \<Rightarrow> bool" where
  "no_example node =
     (falsy (lookup_js node apiContract_examples) \<and> \<not> hasType node apiContract_Example)"

definition no_json_schema :: "jsval \<Rightarrow> bool" where
  "no_json_schema node = (case readJsonSchema node of Some v \<Rightarrow> falsy v | None \<Rightarrow> nullish node)"

definition name_readable :: "jsval \<Rightarrow> bool" where
  "name_readable node =
     (case getValue node shacl_name of JStr s \<Rightarrow> True | JArr xs \<Rightarrow> True | n \<Rightarrow> falsy n)"

definition bare :: "jsval \<Rightarrow> bool" where
  "bare node = (no_example node \<and> no_json_schema node \<and> name_readable node)"

section \<open>The union resolver, as the specification words it\<close>

text \<open>
  Specification, section 4.5, in three steps of its own wording. First: for each
  alternative in declaration order, resolve it and attempt generation (the options are
  shared, so each attempt starts from the options the one before has left). Second: skip
  the alternatives without a result, and give the result of every other one the declared
  name of its alternative as title, or \<open>Union #i\<close> for its 1-based position \<open>i\<close> among all
  alternatives. Third: aggregate into one view model with \<open>hasUnion\<close>, or return nothing when
  no alternative produced a result.
\<close>

fun generateAlternatives ::
  "env \<Rightarrow> jsval \<Rightarrow> jsval list \<Rightarrow> opts \<Rightarrow> (vm list option list \<times> opts) js" where
  "generateAlternatives E mime [] opts = Some ([], opts)"
| "generateAlternatives E mime (alt # alts) opts = do {
     (r, opts) \<leftarrow> computeExamples E (resolve (unwrap alt)) mime (Some opts);
     (rs, opts) \<leftarrow> generateAlternatives E mime alts opts;
     Some (r # rs, opts)
   }"

definition unionTitle :: "nat \<Rightarrow> jsval \<Rightarrow> jsval" where
  "unionTitle position alt =
     (let name = getValue (resolve (unwrap alt)) shacl_name in
      if truthy name then name else JStr (''Union #'' @ nat_to_string position))"

definition titledSurvivors :: "nat \<Rightarrow> jsval list \<Rightarrow> vm list option list \<Rightarrow> vm list" where
  "titledSurvivors first alternatives results =
     List.map_filter
       (\<lambda>(position, alt, r). case r of
            None \<Rightarrow> None
          | Some ds \<Rightarrow> (case ds of [] \<Rightarrow> None | d # rest \<Rightarrow> Some (set_title (unionTitle position alt) d)))
       (zip [first ..< first + length alternatives] (zip alternatives results))"

definition unionResolver_spec :: "jsval list \<Rightarrow> vm list option list \<Rightarrow> vm list option" where
  "unionResolver_spec alternatives results =
     (let vals = titledSurvivors 1 alternatives results in
      if vals = [] then None
      else Some [VM (Some False) False True None None None (Some vals) None])"

section \<open>Sample inputs\<close>

text \<open>
  A runtime for the concrete evaluations below. Its built-ins answer only what those
  evaluations ask: \<open>JSON.parse\<close> reads the texts \<open>{}\<close> and \<open>42\<close> and throws on anything else,
  \<open>JSON.stringify\<close> prints the object with the one property \<open>name\<close> that is the empty string.
\<close>

definition name_json :: string where
  "name_json = ''{'' @ [CHR 0x0A] @ ''  '' @ [CHR 0x22] @ ''name'' @ [CHR 0x22] @ '': '' @
     [CHR 0x22, CHR 0x22, CHR 0x0A] @ ''}''"

definition sample_env :: env where
  "sample_env = \<lparr>
     JSON_parse = (\<lambda>v. if v = JStr ''{}'' then Some (JObj [])
                        else if v = JStr ''42'' then Some (JNum 42) else None),
     JSON_stringify = (\<lambda>v. if v = JObj [(''name'', JStr [])] then JStr name_json
                            else JStr ''{}''),
     to_Number = (\<lambda>v. JNaN),
     is_NaN = (\<lambda>v. True),
     to_String = (\<lambda>v. []),
     decodeURIComponent = (\<lambda>s. Some s),
     dom_xmlFromStructure = (\<lambda>s t. Some (JStr ''<a/>'')),
     dom_xmlExampleFromProperties = (\<lambda>p t q. Some (JStr ''<a/>'')),
     dom_formatXml = (\<lambda>s. s),
     dom_validName = (\<lambda>s. s \<noteq> [])\<rparr>"

definition json :: jsval where
  "json = JStr ''application/json''"

text \<open>Shapes of an expanded model, as the parser emits them.\<close>

definition scalarShape :: "string \<Rightarrow> jsval" where
  "scalarShape dt = JObj [
     (''@type'', JArr [JStr shapes_ScalarShape]),
     (shacl_datatype, JArr [JObj [(''@id'', JStr dt)]])]"

definition namedScalarShape :: "string \<Rightarrow> string \<Rightarrow> jsval" where
  "namedScalarShape n dt = JObj [
     (''@type'', JArr [JStr shapes_ScalarShape]),
     (shacl_name, JArr [JObj [(''@value'', JStr n)]]),
     (shacl_datatype, JArr [JObj [(''@id'', JStr dt)]])]"

definition unionShape :: "jsval list \<Rightarrow> jsval" where
  "unionShape alternatives = JObj [
     (''@type'', JArr [JStr shapes_UnionShape]),
     (shapes_anyOf, JArr alternatives)]"

definition arrayShape :: "jsval \<Rightarrow> jsval" where
  "arrayShape item = JObj [
     (''@type'', JArr [JStr shapes_ArrayShape]),
     (shapes_items, JArr [item])]"

definition xsd_string :: string where
  "xsd_string = ns_xmlSchema @ ''string''"

text \<open>
  An author example with raw text, tracked for the payloads whose identifiers are listed,
  and a shape that carries examples.
\<close>

definition trackedExample :: "string \<Rightarrow> string \<Rightarrow> jsval" where
  "trackedExample rawText ids = JObj [
     (''@type'', JArr [JStr apiContract_Example]),
     (document_raw, JArr [JObj [(''@value'', JStr rawText)]]),
     (docSourceMaps_sources, JArr [JObj [
        (docSourceMaps_trackedElement, JArr [JObj [
           (docSourceMaps_value, JArr [JObj [(''@value'', JStr ids)]])]])]])]"

definition withExamples :: "jsval list \<Rightarrow> jsval \<Rightarrow> jsval" where
  "withExamples examples shape =
     (case shape of JObj kvs \<Rightarrow> JObj (kvs @ [(apiContract_examples, JArr examples)]) | _ \<Rightarrow> shape)"

definition optsFor :: "string \<Rightarrow> opts" where
  "optsFor ident = empty_opts\<lparr>o_typeId := JStr ident\<rparr>"

text \<open>A payload of a media type with its schema.\<close>

definition payloadShape :: "string \<Rightarrow> string \<Rightarrow> jsval \<Rightarrow> jsval" where
  "payloadShape ident media schema = JObj [
     (''@id'', JStr ident),
     (''@type'', JArr [JStr apiContract_Payload]),
     (core_mediaType, JArr [JObj [(''@value'', JStr media)]]),
     (shapes_schema, JArr [schema])]"

text \<open>
  An object shape that was declared by a JSON-Schema fragment, which the parser keeps in
  a source map of the shape, and a property of a shape.
\<close>

definition jsonSchemaShape :: "string \<Rightarrow> jsval list \<Rightarrow> jsval" where
  "jsonSchemaShape fragment properties = JObj [
     (''@type'', JArr [JStr shacl_NodeShape]),
     (docSourceMaps_sources, JArr [JObj [
        (docSourceMaps_parsedJsonSchema, JArr [JObj [
           (docSourceMaps_value, JArr [JObj [(''@value'', JStr fragment)]])]])]]),
     (shacl_property, JArr properties)]"

definition propertyShape :: "string \<Rightarrow> jsval \<Rightarrow> jsval" where
  "propertyShape n rng = JObj [
     (shacl_name, JArr [JObj [(''@value'', JStr n)]]),
     (shapes_range, JArr [rng])]"

definition noAuto_opts :: opts where
  "noAuto_opts = empty_opts\<lparr>o_noAuto := True\<rparr>"

text \<open>An object shape without properties, for which nothing is generated.\<close>

definition emptyObjectShape :: jsval where
  "emptyObjectShape = JObj [(''@type'', JArr [JStr shacl_NodeShape])]"


text \<open>
  Author examples without raw text: one whose structured value is a scalar data node
  without a literal, and one whose structured value is a data node that is neither a
  scalar, an object nor an array. The options with \<open>rawOnly\<close> set.
\<close>

definition literalLessExample :: jsval where
  "literalLessExample = JObj [
     (''@type'', JArr [JStr apiContract_Example]),
     (document_structuredValue, JArr [JObj [(''@type'', JArr [JStr data_Scalar])]])]"

definition linkExample :: jsval where
  "linkExample = JObj [
     (''@type'', JArr [JStr apiContract_Example]),
     (document_structuredValue, JArr [JObj [(''@type'', JArr [JStr (ns_data @ ''Link'')])]])]"

definition rawOnly_opts :: opts where
  "rawOnly_opts = empty_opts\<lparr>o_rawOnly := True\<rparr>"

section \<open>Facts about the helpers\<close>

lemma shift_index_absent [simp]: "shift_index (-1) = -1"
  by (simp add: shift_index_def)

lemma str_indexOf_absent: "c \<in> set p \<Longrightarrow> c \<notin> set s \<Longrightarrow> str_indexOf s p = -1"
proof (induction s)
  case Nil
  then show ?case by auto
next
  case (Cons a s)
  have "take (length p) (a # s) \<noteq> p"
  proof
    assume "take (length p) (a # s) = p"
    then have "set p \<subseteq> set (a # s)" by (metis set_take_subset)
    with Cons.prems show False by auto
  qed
  with Cons show ?case by simp
qed

lemma str_indexOf_prefix: "str_indexOf (p @ s) p = 0"
proof (cases "p @ s")
  case Nil
  then show ?thesis by simp
next
  case (Cons a list)
  have "take (length p) (p @ s) = p" by simp
  with Cons show ?thesis by simp
qed

lemma shapes_not_xsd: "CHR '':'' \<notin> set name \<Longrightarrow> str_indexOf (ns_shapes @ name) ns_xmlSchema = -1"
  by (simp add: ns_shapes_def ns_xmlSchema_def str_indexOf_absent [where c = "CHR '':''"])

lemma local_not_ns:
  assumes "CHR '':'' \<notin> set name"
  shows "str_indexOf name ns_shapes = -1" "str_indexOf name ns_xmlSchema = -1" "str_indexOf name '':'' = -1"
  using assms by (auto intro!: str_indexOf_absent [where c = "CHR '':''"] simp: ns_shapes_def ns_xmlSchema_def)

lemma computeScalarType_declared:
  assumes "lookup_js (unwrap (lookup_js shape shacl_datatype)) ''@id'' = JStr (ns @ name)"
    and "ns = ns_xmlSchema \<or> ns = ns_shapes"
    and "name \<noteq> []" "CHR '':'' \<notin> set name"
  shows "computeScalarType shape = Some (JStr (toUpperCase (hd name) @ tl name))"
proof -
  let ?dt = "lookup_js shape shacl_datatype"
  have obj: "\<not> nullish (unwrap ?dt)" using assms(1)
    by (auto simp: nullish_def lookup_js_def)
  have t: "\<not> falsy ?dt" using assms(1)
    by (cases ?dt) (auto simp: falsy_def unwrap_def lookup_js_def)
  then have ns: "\<not> nullish shape"
    by (auto simp: nullish_def lookup_js_def falsy_def)
  have tr: "truthy (JStr (ns @ name))" using assms(3) by simp
  obtain c cs where n: "name = c # cs" using assms(3) by (cases name) auto
  show ?thesis
  proof (cases "ns = ns_xmlSchema")
    case True
    then show ?thesis using assms obj t ns tr n local_not_ns [OF assms(4)]
      by (simp add: computeScalarType_def js_get_def js_indexOf_def js_substr_def str_indexOf_prefix)
  next
    case False
    then have "ns = ns_shapes" using assms(2) by simp
    then show ?thesis using assms obj t ns tr n local_not_ns [OF assms(4)] shapes_not_xsd [OF assms(4)]
      by (simp add: computeScalarType_def js_get_def js_indexOf_def js_substr_def str_indexOf_prefix)
  qed
qed

lemma toUpperCase_inv:
  assumes "toUpperCase c = [u]" and "toUpperCase c \<noteq> [c]"
  shows "(c, u) \<in> set (zip ''abcdefghijklmnopqrstuvwxyz'' ''ABCDEFGHIJKLMNOPQRSTUVWXYZ'') \<or>
    (c, u) \<in> set (zip latin_small latin_capital)"
proof (cases "map_of (zip ''abcdefghijklmnopqrstuvwxyz'' ''ABCDEFGHIJKLMNOPQRSTUVWXYZ'') c")
  case (Some v)
  then have "toUpperCase c = [v]" by (simp only: toUpperCase_def option.case)
  with assms(1) have "v = u" by simp
  with Some show ?thesis by (blast dest: map_of_SomeD)
next
  case None
  note first = this
  show ?thesis
  proof (cases "map_of (zip latin_small latin_capital) c")
    case (Some v)
    with first have "toUpperCase c = [v]" by (simp only: toUpperCase_def option.case)
    with assms(1) have "v = u" by simp
    with Some show ?thesis by (blast dest: map_of_SomeD)
  next
    case None
    with first have "toUpperCase c = (if c = CHR 0xDF then ''SS'' else [c])"
      by (simp only: toUpperCase_def option.case)
    with assms show ?thesis by (simp split: if_splits)
  qed
qed

lemma latin_pairs_high:
  "(c, u) \<in> set (zip latin_small latin_capital) \<Longrightarrow>
   u \<notin> {CHR ''N'', CHR ''I'', CHR ''L'', CHR ''F'', CHR ''D'', CHR ''B''}"
  unfolding latin_small_def latin_capital_def by (simp, elim disjE; simp)

lemma toUpperCase_shape: "toUpperCase c = ''SS'' \<or> (\<exists>u. toUpperCase c = [u])"
  by (auto simp: toUpperCase_def split: option.splits)

lemma toUpperCase_values:
  "toUpperCase (CHR ''n'') = ''N''" "toUpperCase (CHR ''i'') = ''I''"
  "toUpperCase (CHR ''l'') = ''L''" "toUpperCase (CHR ''f'') = ''F''"
  "toUpperCase (CHR ''d'') = ''D''" "toUpperCase (CHR ''b'') = ''B''"
  by code_simp+

lemma ascii_pairs:
  assumes "(c, u) \<in> set (zip ''abcdefghijklmnopqrstuvwxyz'' ''ABCDEFGHIJKLMNOPQRSTUVWXYZ'')"
  shows "u = CHR ''N'' \<Longrightarrow> c = CHR ''n''" "u = CHR ''I'' \<Longrightarrow> c = CHR ''i''"
    "u = CHR ''L'' \<Longrightarrow> c = CHR ''l''" "u = CHR ''F'' \<Longrightarrow> c = CHR ''f''"
    "u = CHR ''D'' \<Longrightarrow> c = CHR ''d''" "u = CHR ''B'' \<Longrightarrow> c = CHR ''b''"
  using assms by simp_all

lemma toUpperCase_small:
  assumes "toUpperCase c \<noteq> [c]"
  shows "toUpperCase c = ''N'' \<longleftrightarrow> c = CHR ''n''"
    "toUpperCase c = ''I'' \<longleftrightarrow> c = CHR ''i''"
    "toUpperCase c = ''L'' \<longleftrightarrow> c = CHR ''l''"
    "toUpperCase c = ''F'' \<longleftrightarrow> c = CHR ''f''"
    "toUpperCase c = ''D'' \<longleftrightarrow> c = CHR ''d''"
    "toUpperCase c = ''B'' \<longleftrightarrow> c = CHR ''b''"
proof -
  have asc: "(c, u) \<in> set (zip ''abcdefghijklmnopqrstuvwxyz'' ''ABCDEFGHIJKLMNOPQRSTUVWXYZ'')"
    if "toUpperCase c = [u]"
      and "u \<in> {CHR ''N'', CHR ''I'', CHR ''L'', CHR ''F'', CHR ''D'', CHR ''B''}" for u
    using toUpperCase_inv [OF that(1) assms] latin_pairs_high [of c u] that(2) by blast
  show "toUpperCase c = ''N'' \<longleftrightarrow> c = CHR ''n''"
    using ascii_pairs(1) [OF asc [of "CHR ''N''"]] toUpperCase_values(1) by auto
  show "toUpperCase c = ''I'' \<longleftrightarrow> c = CHR ''i''"
    using ascii_pairs(2) [OF asc [of "CHR ''I''"]] toUpperCase_values(2) by auto
  show "toUpperCase c = ''L'' \<longleftrightarrow> c = CHR ''l''"
    using ascii_pairs(3) [OF asc [of "CHR ''L''"]] toUpperCase_values(3) by auto
  show "toUpperCase c = ''F'' \<longleftrightarrow> c = CHR ''f''"
    using ascii_pairs(4) [OF asc [of "CHR ''F''"]] toUpperCase_values(4) by auto
  show "toUpperCase c = ''D'' \<longleftrightarrow> c = CHR ''d''"
    using ascii_pairs(5) [OF asc [of "CHR ''D''"]] toUpperCase_values(5) by auto
  show "toUpperCase c = ''B'' \<longleftrightarrow> c = CHR ''b''"
    using ascii_pairs(6) [OF asc [of "CHR ''B''"]] toUpperCase_values(6) by auto
qed

lemma capital_head:
  "X \<noteq> CHR ''S'' \<Longrightarrow> toUpperCase c @ cs = X # xs \<longleftrightarrow> toUpperCase c = [X] \<and> cs = xs"
  using toUpperCase_shape [of c] by auto

lemma hasType_truthy: "hasType m t \<Longrightarrow> truthy m"
  by (cases "truthy m") (auto simp: hasType_def ensureArray_def falsy_def)

lemma truthy_not_nullish: "truthy m \<Longrightarrow> \<not> nullish m"
  by (auto simp: nullish_def)

lemma ensureArray_falsy: "falsy v \<Longrightarrow> ensureArray v = None"
  by (simp add: ensureArray_def)

lemma zero_table_capital:
  assumes "toUpperCase c \<noteq> [c]"
  shows "(JStr (toUpperCase c @ cs) \<in> JStr ` {''Number'', ''Integer'', ''Long'', ''Float'', ''Double''})
         = (c # cs \<in> {''integer'', ''number'', ''long'', ''double'', ''float''})"
    "(JStr (toUpperCase c @ cs) = JStr ''Boolean'') = (c # cs = ''boolean'')"
    "(JStr (toUpperCase c @ cs) \<in> JStr ` {''Nil'', ''Null''}) = (c # cs \<in> {''nil'', ''null''})"
  by (auto simp: capital_head toUpperCase_small [OF assms])

subsection \<open>The properties of view models along the generation\<close>

lemma fold_option_inv:
  assumes "fold f xs (Some s0) = Some s" and "I s0"
    and "\<And>x a b. x \<in> set xs \<Longrightarrow> I a \<Longrightarrow> f x (Some a) = Some b \<Longrightarrow> I b"
    and "\<And>x. x \<in> set xs \<Longrightarrow> f x None = None"
  shows "I s"
  using assms
proof (induction xs arbitrary: s0)
  case Nil
  then show ?case by simp
next
  case (Cons x xs)
  have none: "set ys \<subseteq> set xs \<Longrightarrow> fold f ys None = None" for ys
    using Cons.prems(4) by (induction ys) auto
  show ?case
  proof (cases "f x (Some s0)")
    case None
    with Cons.prems(1) none [of xs] show ?thesis by simp
  next
    case (Some s1)
    have "I s1" using Cons.prems(2,3) Some by auto
    moreover have "fold f xs (Some s1) = Some s" using Cons.prems(1) Some by simp
    ultimately show ?thesis using Cons.IH [of s1] Cons.prems(3,4) by auto
  qed
qed

lemma vm_assigned_set_title: "vm_assigned d \<Longrightarrow> vm_assigned (set_title name d)"
  by (cases d) (auto simp: set_title_def)

lemma vm_assigned_generateFromExample:
  "generateFromExample E example mime opts = Some (Some r) \<Longrightarrow> vm_assigned r"
  by (auto simp: generateFromExample_def Let_def set_isScalar_def set_value_def set_hasRaw_def
      set_raw_def split: if_splits Option.bind_splits option.splits)

lemma exampleFromProperties_shape:
  "exampleFromProperties E properties mime typeName parentType = Some (Some r) \<Longrightarrow>
   \<exists>v. r = VM (Some False) False False (Some v) None None None None"
  by (auto simp: exampleFromProperties_def Let_def split: if_splits Option.bind_splits)

lemma vm_assigned_exampleFromJsonSchema:
  "exampleFromJsonSchema E schema jsonSchema = Some rs \<Longrightarrow> list_all vm_assigned rs"
  by (auto simp: exampleFromJsonSchema_def Let_def set_raw_def set_hasRaw_def
      split: if_splits Option.bind_splits option.splits dest!: exampleFromProperties_shape)

lemma vm_assigned_computeFromExamples:
  assumes "computeFromExamples E examples mime opts = Some (Some rs)"
  shows "list_all vm_assigned rs"
proof -
  obtain xs where f: "fold (\<lambda>shape acc. do {
              result \<leftarrow> acc;
              v \<leftarrow> generateFromExample E shape mime opts;
              Some (case v of Some x \<Rightarrow> result @ [x] | None \<Rightarrow> result)
            }) xs (Some []) = Some rs"
    using assms
    by (auto simp: computeFromExamples_def split: Option.bind_splits option.splits)
  show ?thesis
    by (rule fold_option_inv [OF f, where I = "list_all vm_assigned"])
      (auto split: Option.bind_splits option.splits dest: vm_assigned_generateFromExample)
qed

lemma vm_assigned_bracketValue: "bracketValue E x = Some y \<Longrightarrow> vm_assigned x \<Longrightarrow> vm_assigned y"
  by (cases x)
    (auto simp: bracketValue_def set_value_def Let_def split: option.splits if_splits Option.bind_splits)

lemma vm_assigned_processJsonArrayItem:
  assumes "processJsonArrayItem E x = Some y" and "vm_assigned x"
  shows "vm_assigned y"
proof (cases "vm_values x")
  case None
  then show ?thesis
    using assms by (auto simp: processJsonArrayItem_def dest: vm_assigned_bracketValue)
next
  case (Some vs)
  then obtain v0 rest v0' where vs: "vs = v0 # rest" and b: "bracketValue E v0 = Some v0'"
    and y: "y = set_values (v0' # rest) x"
    using assms(1)
    by (auto simp: processJsonArrayItem_def split: list.splits Option.bind_splits)
  show ?thesis
  proof (cases x)
    case (VM hr ht hu v t rw vs' sc)
    with Some vs assms(2) have "hu \<Longrightarrow> vm_assigned v0" by auto
    then have "hu \<Longrightarrow> vm_assigned v0'" using b by (auto dest: vm_assigned_bracketValue)
    then show ?thesis
      using VM Some vs y assms(2) by (auto simp: set_values_def)
  qed
qed

lemma vm_assigned_processJsonArrayExamples:
  "processJsonArrayExamples E xs = Some ys \<Longrightarrow> list_all vm_assigned xs \<Longrightarrow> list_all vm_assigned ys"
  unfolding processJsonArrayExamples_def
proof (induction xs arbitrary: ys)
  case Nil
  then show ?case by simp
next
  case (Cons x xs)
  then show ?case
    by (auto split: option.splits dest: vm_assigned_processJsonArrayItem)
qed

lemma vm_assigned_array:
  assumes IH: "\<And>item o0 vms o'. size item < size schema \<Longrightarrow>
      computeExamples E item mime o0 = Some (Some vms, o') \<Longrightarrow> list_all vm_assigned vms"
    and r: "computeExampleArraySchape E schema mime opts = Some (Some vms, o')"
  shows "list_all vm_assigned vms"
proof -
  let ?body = "\<lambda>isJson item acc. do {
              (found, opts) \<leftarrow> acc;
              (case found of
                 Some r \<Rightarrow> Some (found, opts)
               | None \<Rightarrow> do {
                   (result, opts) \<leftarrow> computeExamples E item mime (Some opts);
                   (case result of
                      None \<Rightarrow> Some (None, opts)
                    | Some r \<Rightarrow> do {
                        r \<leftarrow> (if isJson then processJsonArrayExamples E r else Some r);
                        Some (Some r, opts)
                      })
                 })
            }"
  obtain a items isJson o1 where a: "js_get schema shapes_items = Some a" "ensureArray a = Some items"
    and f: "fold (?body isJson) items (Some (None, o1)) = Some (Some vms, o')"
    using r
    by (auto simp: computeExampleArraySchape.simps Let_def split: Option.bind_splits option.splits)
  have "case (Some vms, o') of (found, o2) \<Rightarrow> \<forall>r. found = Some r \<longrightarrow> list_all vm_assigned r"
  proof (rule fold_option_inv [OF f])
    show "case (None, o1) of (found, o2) \<Rightarrow> \<forall>r. found = Some r \<longrightarrow> list_all vm_assigned r"
      by simp
  next
    fix x acc b
    assume x: "x \<in> set items"
      and i: "case acc of (found, o2) \<Rightarrow> \<forall>r. found = Some r \<longrightarrow> list_all vm_assigned r"
      and s: "?body isJson x (Some acc) = Some b"
    have sz: "size x < size schema"
      using a x by (rule size_ensureArray_get)
    show "case b of (found, o2) \<Rightarrow> \<forall>r. found = Some r \<longrightarrow> list_all vm_assigned r"
      using i s IH [OF sz]
      by (auto split: Option.bind_splits option.splits prod.splits if_splits
          dest: vm_assigned_processJsonArrayExamples)
  next
    fix x
    show "?body isJson x None = None" by simp
  qed
  then show ?thesis by simp
qed


lemma vm_assigned_union:
  assumes IH: "\<And>item o0 vms o'. size item < size schema \<Longrightarrow>
      computeExamples E item mime o0 = Some (Some vms, o') \<Longrightarrow> list_all vm_assigned vms"
    and r: "computeUnionExamples E schema mime opts = Some (Some vms, o')"
  shows "list_all vm_assigned vms"
proof -
  let ?body = "\<lambda>(i, unionSchape) acc. do {
              (vals, opts) \<leftarrow> acc;
              let unionSchape = resolve (unwrap unionSchape);
              (data, opts) \<leftarrow> computeExamples E unionSchape mime (Some opts);
              (case data of
                 None \<Rightarrow> Some (vals, opts)
               | Some ds \<Rightarrow>
                  (let name = getValue unionSchape shacl_name;
                       name = (if falsy name then JStr (''Union #'' @ nat_to_string (i + 1))
                               else name)
                   in case ds of
                        [] \<Rightarrow> None
                      | d # rest \<Rightarrow> Some (vals @ [set_title name d], opts)))
            }"
  obtain a anyOf vals where a: "js_get schema shapes_anyOf = Some a" "ensureArray a = Some anyOf"
    and f: "fold ?body (enumerate 0 anyOf) (Some ([], opts)) = Some (vals, o')"
    and v: "vals \<noteq> []" "vms = [VM (Some False) False True None None None (Some vals) None]"
    using r
    by (auto simp: computeUnionExamples.simps Let_def
        split: Option.bind_splits option.splits if_splits)
  have "case (vals, o') of (vs, o2) \<Rightarrow> list_all vm_assigned vs"
  proof (rule fold_option_inv [OF f])
    show "case ([], opts) of (vs, o2) \<Rightarrow> list_all vm_assigned vs"
      by simp
  next
    fix x acc b
    assume x: "x \<in> set (enumerate 0 anyOf)"
      and i: "case acc of (vs, o2) \<Rightarrow> list_all vm_assigned vs"
      and s: "?body x (Some acc) = Some b"
    obtain n alt where na: "x = (n, alt)" by (cases x)
    then have "alt \<in> set anyOf"
      using x by (auto dest: in_set_enumerate)
    then have sz: "size (resolve (unwrap alt)) < size schema"
      using a term_items by (simp add: resolve_def)
    have ih: "vm_assigned d"
      if "computeExamples E (resolve (unwrap alt)) mime o0 = Some (Some (d # rest), o2)"
      for o0 d rest o2
      using IH [OF sz that] by simp
    show "case b of (vs, o2) \<Rightarrow> list_all vm_assigned vs"
      using i s na
      by (auto simp: Let_def split: Option.bind_splits option.splits prod.splits list.splits
          intro!: vm_assigned_set_title dest: ih)
  next
    fix x
    show "?body x None = None" by (cases x) simp
  qed
  with v show ?thesis by simp
qed

subsection \<open>Shapes without examples under \<open>noAuto\<close>\<close>

lemma fold_option_total:
  assumes "I s0"
    and "\<And>x a. x \<in> set xs \<Longrightarrow> I a \<Longrightarrow> \<exists>b. f x (Some a) = Some b \<and> I b"
  shows "\<exists>s. fold f xs (Some s0) = Some s \<and> I s"
  using assms
proof (induction xs arbitrary: s0)
  case Nil
  then show ?case by simp
next
  case (Cons x xs)
  obtain b where b: "f x (Some s0) = Some b" "I b"
    using Cons.prems by fastforce
  have "\<exists>s. fold f xs (Some b) = Some s \<and> I s"
    using Cons.IH [OF b(2)] Cons.prems(2) by simp
  then show ?case using b by simp
qed

lemma all_sub_self: "all_sub P v \<Longrightarrow> P v"
  by (cases v) auto

lemma all_sub_lookup: "all_sub P v \<Longrightarrow> truthy (lookup_js v k) \<Longrightarrow> all_sub P (lookup_js v k)"
proof (cases v)
  case (JObj kvs)
  have "list_all (\<lambda>(k, v). all_sub P v) kvs \<Longrightarrow> map_of kvs k = Some w \<Longrightarrow> all_sub P w" for w
    by (induction kvs) (auto split: if_splits)
  with JObj show "all_sub P v \<Longrightarrow> truthy (lookup_js v k) \<Longrightarrow> all_sub P (lookup_js v k)"
    by (auto simp: lookup_js_def split: option.splits)
qed (auto simp: lookup_js_def)

lemma all_sub_ensureArray:
  "all_sub P v \<Longrightarrow> ensureArray v = Some xs \<Longrightarrow> x \<in> set xs \<Longrightarrow> all_sub P x"
  by (cases v) (auto simp: ensureArray_def list_all_iff split: if_splits)

lemma all_sub_unwrap: "all_sub P v \<Longrightarrow> truthy (unwrap v) \<Longrightarrow> all_sub P (unwrap v)"
  by (cases v) (auto simp: unwrap_def split: list.splits)

lemma all_sub_items:
  assumes "all_sub P schema" and "js_get schema k = Some a" and "ensureArray a = Some items"
    and "x \<in> set items"
  shows "all_sub P x"
proof -
  have a: "a = lookup_js schema k" using assms(2) by (rule js_get_Some)
  have "truthy a" using assms(3) by (auto simp: ensureArray_def falsy_def split: if_splits)
  then have "all_sub P a" using assms(1) a all_sub_lookup by simp
  then show ?thesis using assms(3,4) by (rule all_sub_ensureArray)
qed


lemma js_get_truthy: "truthy v \<Longrightarrow> js_get v k = Some (lookup_js v k)"
  by (cases v) (auto simp: js_get_def nullish_def)

lemma readTypeName_readable:
  assumes "name_readable schema"
  shows "\<exists>a. readTypeName schema opts = Some a \<and> o_noAuto a = o_noAuto opts \<and>
    o_rawOnly a = o_rawOnly opts"
  using assms
  by (cases "getValue schema shacl_name")
    (auto simp: name_readable_def readTypeName_def Let_def js_indexOf_def falsy_def)

lemma absent_array:
  assumes IH: "\<And>item o0. size item < size schema \<Longrightarrow> falsy item \<or> all_sub bare item \<Longrightarrow>
      o_noAuto o0 \<Longrightarrow>
      \<exists>o'. computeExamples E item (JStr m) (Some o0) = Some (None, o') \<and> o_noAuto o'"
    and sub: "all_sub bare schema" and tr: "truthy schema" and na: "o_noAuto opts"
  shows "\<exists>o'. computeExampleArraySchape E schema (JStr m) opts = Some (None, o') \<and> o_noAuto o'"
proof -
  obtain a where a: "js_get schema shapes_items = Some a"
    using tr by (simp add: js_get_truthy)
  show ?thesis
  proof (cases "ensureArray a")
    case None
    with a na show ?thesis by (simp add: computeExampleArraySchape.simps)
  next
    case (Some items)
    let ?body = "\<lambda>isJson item acc. do {
              (found, opts) \<leftarrow> acc;
              (case found of
                 Some r \<Rightarrow> Some (found, opts)
               | None \<Rightarrow> do {
                   (result, opts) \<leftarrow> computeExamples E item (JStr m) (Some opts);
                   (case result of
                      None \<Rightarrow> Some (None, opts)
                    | Some r \<Rightarrow> do {
                        r \<leftarrow> (if isJson then processJsonArrayExamples E r else Some r);
                        Some (Some r, opts)
                      })
                 })
            }"
    let ?I = "\<lambda>(found, o2). found = (None :: vm list option) \<and> o_noAuto o2"
    have step: "\<exists>b. ?body isJson x (Some acc) = Some b \<and> ?I b"
      if xin: "x \<in> set items" and inv: "?I acc" for x acc isJson
    proof -
      obtain o2 where acc: "acc = (None, o2)" "o_noAuto o2"
        using inv by (cases acc) auto
      have "size x < size schema"
        using a Some xin by (rule size_ensureArray_get)
      moreover have "all_sub bare x"
        using sub a Some xin by (rule all_sub_items)
      ultimately obtain o3 where "computeExamples E x (JStr m) (Some o2) = Some (None, o3)"
        "o_noAuto o3"
        using IH acc(2) by blast
      with acc show ?thesis by simp
    qed
    have "\<exists>s. fold (?body isJson) items (Some (None, o1)) = Some s \<and> ?I s"
      if "o_noAuto o1" for o1 isJson
      using that step by (intro fold_option_total) auto
    then show ?thesis
      using a Some na
      by (fastforce simp: computeExampleArraySchape.simps js_indexOf_def Let_def)
  qed
qed

lemma absent_union:
  assumes IH: "\<And>item o0. size item < size schema \<Longrightarrow> falsy item \<or> all_sub bare item \<Longrightarrow>
      o_noAuto o0 \<Longrightarrow>
      \<exists>o'. computeExamples E item (JStr m) (Some o0) = Some (None, o') \<and> o_noAuto o'"
    and sub: "all_sub bare schema" and tr: "truthy schema" and na: "o_noAuto opts"
  shows "\<exists>o'. computeUnionExamples E schema (JStr m) opts = Some (None, o') \<and> o_noAuto o'"
proof -
  obtain a where a: "js_get schema shapes_anyOf = Some a"
    using tr by (simp add: js_get_truthy)
  show ?thesis
  proof (cases "ensureArray a")
    case None
    with a na show ?thesis by (simp add: computeUnionExamples.simps)
  next
    case (Some anyOf)
    let ?body = "\<lambda>(i, unionSchape) acc. do {
              (vals, opts) \<leftarrow> acc;
              let unionSchape = resolve (unwrap unionSchape);
              (data, opts) \<leftarrow> computeExamples E unionSchape (JStr m) (Some opts);
              (case data of
                 None \<Rightarrow> Some (vals, opts)
               | Some ds \<Rightarrow>
                  (let name = getValue unionSchape shacl_name;
                       name = (if falsy name then JStr (''Union #'' @ nat_to_string (i + 1))
                               else name)
                   in case ds of
                        [] \<Rightarrow> None
                      | d # rest \<Rightarrow> Some (vals @ [set_title name d], opts)))
            }"
    let ?I = "\<lambda>(vals, o2). vals = ([] :: vm list) \<and> o_noAuto o2"
    have step: "\<exists>b. ?body x (Some acc) = Some b \<and> ?I b"
      if xin: "x \<in> set (enumerate 0 anyOf)" and inv: "?I acc" for x acc
    proof -
      obtain o2 where acc: "acc = ([], o2)" "o_noAuto o2"
        using inv by (cases acc) auto
      obtain n alt where x: "x = (n, alt)" by (cases x)
      then have mem: "alt \<in> set anyOf"
        using xin by (auto dest: in_set_enumerate)
      have "size (unwrap alt) < size schema"
        using a Some mem by (rule term_items)
      moreover have "all_sub bare alt"
        using sub a Some mem by (rule all_sub_items)
      then have "falsy (unwrap alt) \<or> all_sub bare (unwrap alt)"
        using all_sub_unwrap by (auto simp: falsy_def)
      ultimately obtain o3 where
        "computeExamples E (unwrap alt) (JStr m) (Some o2) = Some (None, o3)" "o_noAuto o3"
        using IH acc(2) by blast
      with acc x show ?thesis by (simp add: resolve_def)
    qed
    have "\<exists>s. fold ?body (enumerate 0 anyOf) (Some ([], opts)) = Some s \<and> ?I s"
      using na step by (intro fold_option_total) auto
    then show ?thesis
      using a Some
      by (fastforce simp: computeUnionExamples.simps)
  qed
qed

lemma absent_noAuto:
  "falsy schema \<or> all_sub bare schema \<Longrightarrow> o_noAuto opts \<Longrightarrow> m \<noteq> [] \<Longrightarrow>
   \<exists>opts'. computeExamples E schema (JStr m) (Some opts) = Some (None, opts') \<and> o_noAuto opts'"
proof (induction schema arbitrary: opts rule: measure_induct_rule [where f = size])
  case (less schema)
  show ?case
  proof (cases "falsy schema")
    case True
    then show ?thesis
      using less.prems by (simp add: computeExamples.simps opts_or_empty_def)
  next
    case False
    then have tr: "truthy schema" and nn: "\<not> nullish schema"
      by (auto simp: falsy_def nullish_def)
    have sub: "all_sub bare schema" using less.prems False by simp
    then have b: "no_example schema" "no_json_schema schema" "name_readable schema"
      using all_sub_self [of bare schema] by (simp_all add: bare_def)
    obtain a where a: "readTypeName schema opts = Some a" "o_noAuto a" "o_rawOnly a = o_rawOnly opts"
      using readTypeName_readable [OF b(3), of opts] less.prems(2) by auto
    have ex: "ensureArray (lookup_js schema apiContract_examples) = None"
      using b(1) by (simp add: no_example_def ensureArray_def)
    obtain v where v: "readJsonSchema schema = Some v" "falsy v"
      using b(2) nn by (auto simp: no_json_schema_def split: option.splits)
    have IH: "\<exists>o'. computeExamples E item (JStr m) (Some o0) = Some (None, o') \<and> o_noAuto o'"
      if "size item < size schema" "falsy item \<or> all_sub bare item" "o_noAuto o0" for item o0
      using less.IH [OF that(1,2,3) less.prems(3)] .
    have A: "\<exists>o'. computeExampleArraySchape E schema (JStr m) a = Some (None, o') \<and> o_noAuto o'"
      using IH sub tr a(2) by (rule absent_array)
    have U: "\<exists>o'. computeUnionExamples E schema (JStr m) o1 = Some (None, o') \<and> o_noAuto o'"
      if "o_noAuto o1" for o1
      using IH sub tr that by (rule absent_union)
    obtain o1 where o1: "(if hasType schema shapes_ArrayShape
                  then computeExampleArraySchape E schema (JStr m) a
                  else Some (None, a)) = Some (None, o1)" "o_noAuto o1"
      using A a(2) by (cases "hasType schema shapes_ArrayShape") auto
    obtain o2 where o2: "computeUnionExamples E schema (JStr m) o1 = Some (None, o2)" "o_noAuto o2"
      using U [OF o1(2)] by blast
    have ne: "\<not> hasType schema apiContract_Example"
      using b(1) by (simp add: no_example_def)
    show ?thesis
      using tr nn less.prems(3) a ex v o1 o2 ne
      by (simp add: computeExamples.simps opts_or_empty_def falsy_def resolve_def js_get_def)
  qed
qed

lemma all_sub_conj:
  "all_sub P v \<Longrightarrow> all_sub Q v \<Longrightarrow> all_sub R v \<Longrightarrow> all_sub (\<lambda>n. P n \<and> Q n \<and> R n) v"
  by (induction P v rule: all_sub.induct) (fastforce simp: list_all_iff)+

lemma all_sub_bare:
  assumes "all_sub no_example v" and "all_sub no_json_schema v" and "all_sub name_readable v"
  shows "all_sub bare v"
proof -
  have "bare = (\<lambda>n. no_example n \<and> no_json_schema n \<and> name_readable n)"
    by (auto simp: bare_def)
  then show ?thesis
    using all_sub_conj [OF assms] by simp
qed

subsection \<open>The loop of the union resolver\<close>

lemma generateAlternatives_length:
  "generateAlternatives E mime alts opts = Some (rs, opts') \<Longrightarrow> length rs = length alts"
  by (induction alts arbitrary: opts rs)
    (auto split: Option.bind_splits prod.splits)

lemma union_loop_refines:
  fixes E mime
  defines "body \<equiv> (\<lambda>(i, unionSchape) acc. do {
              (vals, opts) \<leftarrow> acc;
              let unionSchape = resolve (unwrap unionSchape);
              (data, opts) \<leftarrow> computeExamples E unionSchape mime (Some opts);
              (case data of
                 None \<Rightarrow> Some (vals, opts)
               | Some ds \<Rightarrow>
                  (let name = getValue unionSchape shacl_name;
                       name = (if falsy name then JStr (''Union #'' @ nat_to_string (i + 1))
                               else name)
                   in case ds of
                        [] \<Rightarrow> None
                      | d # rest \<Rightarrow> Some (vals @ [set_title name d], opts)))
            })"
  assumes "generateAlternatives E mime alts opts = Some (rs, opts')" and "Some [] \<notin> set rs"
  shows "fold body (enumerate n alts) (Some (vals0, opts))
         = Some (vals0 @ titledSurvivors (Suc n) alts rs, opts')"
  using assms(2,3)
proof (induction alts arbitrary: n vals0 opts rs)
  case Nil
  then show ?case by (simp add: titledSurvivors_def map_filter_simps)
next
  case (Cons alt alts)
  obtain r o1 rs' where r: "computeExamples E (resolve (unwrap alt)) mime (Some opts) = Some (r, o1)"
    and rest: "generateAlternatives E mime alts o1 = Some (rs', opts')" and rs: "rs = r # rs'"
    using Cons.prems(1) by (auto split: Option.bind_splits prod.splits)
  have ne: "Some [] \<notin> set rs'" "r \<noteq> Some []"
    using Cons.prems(2) rs by auto
  have up: "[Suc n ..< Suc n + length (alt # alts)] = Suc n # [Suc (Suc n) ..< Suc (Suc n) + length alts]"
    by (subst upt_conv_Cons) simp_all
  have unfold: "fold body (enumerate n (alt # alts)) (Some (vals0, opts)) =
      fold body (enumerate (Suc n) alts) (body (n, alt) (Some (vals0, opts)))"
    by simp
  show ?case
  proof (cases r)
    case None
    have t: "titledSurvivors (Suc n) (alt # alts) rs = titledSurvivors (Suc (Suc n)) alts rs'"
      unfolding titledSurvivors_def up rs None by (simp add: map_filter_simps)
    have "body (n, alt) (Some (vals0, opts)) = Some (vals0, o1)"
      using r None by (simp add: body_def)
    then show ?thesis
      using Cons.IH [OF rest ne(1), of "Suc n" vals0] unfold t by simp
  next
    case (Some ds)
    then obtain d ds' where ds: "ds = d # ds'"
      using ne(2) by (cases ds) auto
    have t: "titledSurvivors (Suc n) (alt # alts) rs =
        set_title (unionTitle (Suc n) alt) d # titledSurvivors (Suc (Suc n)) alts rs'"
      unfolding titledSurvivors_def up rs Some ds by (simp add: map_filter_simps)
    have "body (n, alt) (Some (vals0, opts)) =
        Some (vals0 @ [set_title (unionTitle (Suc n) alt) d], o1)"
      using r Some ds by (simp add: body_def unionTitle_def Let_def falsy_def)
    then show ?thesis
      using Cons.IH [OF rest ne(1), of "Suc n" "vals0 @ [set_title (unionTitle (Suc n) alt) d]"]
        unfold t
      by simp
  qed
qed

section \<open>The properties of a view model\<close>

text \<open>
  Every view model that \<open>computeExamples\<close> returns has the properties of the output model
  assigned, at every level of nesting: a union holds a non-empty list of such view models
  and has neither \<open>value\<close> nor \<open>raw\<close>; any other view model has \<open>value\<close> assigned, has
  \<open>raw\<close> exactly when \<open>hasRaw\<close> is true, and \<open>title\<close> exactly when \<open>hasTitle\<close> is true.
  This says nothing about the value that is assigned, which can be \<open>undefined\<close>.
\<close>

lemma computeExamples_assigned:
  "computeExamples E schema mime opts0 = Some (Some vms, opts') \<Longrightarrow> list_all vm_assigned vms"
proof (induction schema arbitrary: opts0 vms opts' rule: measure_induct_rule [where f = size])
  case (less schema)
  have A: "computeExampleArraySchape E schema mime opts = Some (Some r, o') \<Longrightarrow>
      list_all vm_assigned r" for opts r o'
    using less.IH by (rule vm_assigned_array)
  have U: "computeUnionExamples E schema mime opts = Some (Some r, o') \<Longrightarrow>
      list_all vm_assigned r" for opts r o'
    using less.IH by (rule vm_assigned_union)
  show ?case
    using less.prems
    apply (subst (asm) computeExamples.simps)
    apply (auto simp: Let_def resolve_def
        split: if_splits Option.bind_splits option.splits prod.splits
        dest: vm_assigned_computeFromExamples vm_assigned_exampleFromJsonSchema A U
          vm_assigned_generateFromExample exampleFromProperties_shape)
    done
qed

lemma computeExamples_assigned_example:
  "list_all vm_assigned
     [VM (Some False) False True None None None
        (Some [VM (Some False) True False (Some (JNum 0)) (Some (JStr ''Union #1'')) None None
                 (Some True),
               VM (Some False) True False (Some (JBool False)) (Some (JStr ''B'')) None None
                 (Some True)])
        None]"
proof -
  have "computeExamples sample_env
      (unionShape [scalarShape xsd_integer, namedScalarShape ''B'' xsd_boolean]) json None =
    Some (Some [VM (Some False) False True None None None
        (Some [VM (Some False) True False (Some (JNum 0)) (Some (JStr ''Union #1'')) None None
                 (Some True),
               VM (Some False) True False (Some (JBool False)) (Some (JStr ''B'')) None None
                 (Some True)])
        None], empty_opts\<lparr>o_typeName := JStr ''B''\<rparr>)"
    by code_simp
  then show ?thesis
    by (rule computeExamples_assigned)
qed

section \<open>Zero values for expanded datatype identifiers\<close>

text \<open>
  For a scalar shape without a default value and without an example, whose datatype
  identifier is an expanded one (a namespace followed by a local name), the value that
  \<open>_computeJsonScalarValue\<close> synthesises is the entry of the zero-value table for the local
  name: \<open>0\<close> for integer, number, long, double and float, \<open>false\<close> for boolean, \<open>null\<close> for
  nil and null, the empty string for any other local name and without a datatype. When
  \<open>computeExamples\<close> reaches the synthesis of a scalar (a media type is given, \<open>rawOnly\<close> and
  \<open>noAuto\<close> are unset, the shape has no parsed JSON schema and is no array, example or
  union), its result is the one view model with that value.
\<close>

lemma zero_value_table_expanded:
  assumes scalar: "hasType shape shapes_ScalarShape"
    and nodefault: "falsy (lookup_js shape shacl_defaultValue)"
    and noexample: "falsy (lookup_js shape apiContract_examples)"
    and dt: "declaresExpanded shape d"
  shows "computeJsonScalarValue E shape = Some (zero_value d) \<and>
    (truthy mime \<and> \<not> o_rawOnly opts \<and> \<not> o_noAuto opts \<and>
     readJsonSchema shape = Some j \<and> falsy j \<and>
     \<not> hasType shape shapes_ArrayShape \<and> \<not> hasType shape apiContract_Example \<and>
     \<not> hasType shape shapes_UnionShape \<and> readTypeName shape opts = Some opts' \<longrightarrow>
     computeExamples E shape mime (Some opts) =
       Some (Some [VM (Some False) False False (Some (zero_value d)) None None None (Some True)],
             opts'))"
proof -
  have tr: "truthy shape" using scalar by (rule hasType_truthy)
  then have nn: "\<not> nullish shape" by (rule truthy_not_nullish)
  have v: "getTypeScalarValue shape = Some JUndefined"
    using nn nodefault noexample by (simp add: getTypeScalarValue_def js_get_def falsy_def)
  have val: "computeJsonScalarValue E shape = Some (zero_value d)"
  proof (cases d)
    case None
    then have "computeScalarType shape = Some JUndefined"
      using dt nn by (simp add: declaresExpanded_def computeScalarType_def js_get_def)
    with v None show ?thesis
      by (simp add: computeJsonScalarValue_def falsy_def zero_value_def image_iff)
  next
    case (Some name)
    then have ln: "local_name name"
      and ident: "lookup_js (unwrap (lookup_js shape shacl_datatype)) ''@id''
          \<in> {JStr (ns_xmlSchema @ name), JStr (ns_shapes @ name)}"
      using dt by (simp_all add: declaresExpanded_def)
    obtain c cs where n: "name = c # cs" and up: "toUpperCase c \<noteq> [c]" and col: "CHR '':'' \<notin> set name"
      using ln by (cases name) (auto simp: local_name_def)
    obtain ns where "lookup_js (unwrap (lookup_js shape shacl_datatype)) ''@id'' = JStr (ns @ name)"
      and "ns = ns_xmlSchema \<or> ns = ns_shapes"
      using ident by auto
    then have "computeScalarType shape = Some (JStr (toUpperCase (hd name) @ tl name))"
      using n col by (intro computeScalarType_declared) auto
    then have ct: "computeScalarType shape = Some (JStr (toUpperCase c @ cs))"
      using n by simp
    have "computeJsonScalarValue E shape =
      Some (if JStr (toUpperCase c @ cs)
                \<in> JStr ` {''Number'', ''Integer'', ''Long'', ''Float'', ''Double''} then JNum 0
            else if JStr (toUpperCase c @ cs) = JStr ''Boolean'' then JBool False
            else if JStr (toUpperCase c @ cs) \<in> JStr ` {''Nil'', ''Null''} then JNull
            else JStr [])"
      unfolding computeJsonScalarValue_def v ct
      by (simp only: bind.bind_lunit falsy_def truthy.simps not_False_eq_True if_True)
    also have "\<dots> = Some (zero_value d)"
      unfolding zero_table_capital [OF up] Some n zero_value_def
      by (simp only: option.case)
    finally show ?thesis .
  qed
  have "computeExamples E shape mime (Some opts) =
       Some (Some [VM (Some False) False False (Some (zero_value d)) None None None (Some True)],
             opts')"
    if "truthy mime" "\<not> o_rawOnly opts" "\<not> o_noAuto opts"
      "readJsonSchema shape = Some j \<and> falsy j"
      "\<not> hasType shape shapes_ArrayShape" "\<not> hasType shape apiContract_Example"
      "\<not> hasType shape shapes_UnionShape" "readTypeName shape opts = Some opts'"
  proof -
    have o: "o_rawOnly opts' = o_rawOnly opts" "o_noAuto opts' = o_noAuto opts"
      using that(8) by (auto simp: readTypeName_def Let_def split: if_splits Option.bind_splits)
    show ?thesis
      using that tr nn noexample val o scalar
      by (simp add: computeExamples.simps opts_or_empty_def falsy_def resolve_def js_get_def
          ensureArray_falsy)
  qed
  with val show ?thesis by blast
qed

lemma zero_value_table_expanded_example:
  "computeJsonScalarValue sample_env (scalarShape xsd_integer) = Some (JNum 0) \<and>
   computeExamples sample_env (scalarShape xsd_integer) json (Some empty_opts) =
     Some (Some [VM (Some False) False False (Some (JNum 0)) None None None (Some True)],
           empty_opts)"
proof -
  have 1: "hasType (scalarShape xsd_integer) shapes_ScalarShape"
    by code_simp
  have 2: "falsy (lookup_js (scalarShape xsd_integer) shacl_defaultValue)"
    by code_simp
  have 3: "falsy (lookup_js (scalarShape xsd_integer) apiContract_examples)"
    by code_simp
  have 4: "declaresExpanded (scalarShape xsd_integer) (Some ''integer'')"
    by code_simp
  have 5: "truthy json \<and> \<not> o_rawOnly empty_opts \<and> \<not> o_noAuto empty_opts \<and>
     readJsonSchema (scalarShape xsd_integer) = Some JUndefined \<and> falsy JUndefined \<and>
     \<not> hasType (scalarShape xsd_integer) shapes_ArrayShape \<and>
     \<not> hasType (scalarShape xsd_integer) apiContract_Example \<and>
     \<not> hasType (scalarShape xsd_integer) shapes_UnionShape \<and>
     readTypeName (scalarShape xsd_integer) empty_opts = Some empty_opts"
    by code_simp
  have 6: "zero_value (Some ''integer'') = JNum 0"
    by code_simp
  show ?thesis
    using zero_value_table_expanded [OF 1 2 3 4, of sample_env json empty_opts JUndefined empty_opts]
      5 6
    by simp
qed

section \<open>The loop of the union resolver\<close>

text \<open>
  When the generation of every alternative returns nothing or a non-empty list of view
  models, \<open>_computeUnionExamples\<close> computes what the specification describes: it visits
  the alternatives in declaration order, skips those without a result, gives the first
  result of every other alternative the declared name of the alternative as title, or
  \<open>Union #i\<close> with the 1-based position of the alternative among all alternatives, and
  returns one view model with \<open>hasUnion\<close> and these results in order, or nothing when there
  are none.
\<close>

lemma computeUnionExamples_refines:
  assumes "js_get schema shapes_anyOf = Some a" and "ensureArray a = Some alternatives"
    and "generateAlternatives E mime alternatives opts = Some (results, opts')"
    and "Some [] \<notin> set results"
  shows "computeUnionExamples E schema mime opts =
    Some (unionResolver_spec alternatives results, opts')"
  using assms(1,2) union_loop_refines [OF assms(3,4), of 0 "[]"]
  by (simp add: computeUnionExamples.simps unionResolver_spec_def Let_def)

lemma computeUnionExamples_refines_example:
  "computeUnionExamples sample_env (unionShape [emptyObjectShape, scalarShape xsd_integer])
     json empty_opts =
   Some (Some [VM (Some False) False True None None None
                 (Some [VM (Some False) True False (Some (JNum 0)) (Some (JStr ''Union #2''))
                          None None (Some True)])
                 None],
         empty_opts)"
proof -
  let ?alts = "[emptyObjectShape, scalarShape xsd_integer]"
  let ?results = "[None,
    Some [VM (Some False) False False (Some (JNum 0)) None None None (Some True)]]"
  have 1: "js_get (unionShape ?alts) shapes_anyOf = Some (JArr ?alts)"
    by code_simp
  have 2: "ensureArray (JArr ?alts) = Some ?alts"
    by code_simp
  have 3: "generateAlternatives sample_env json ?alts empty_opts = Some (?results, empty_opts)"
    by code_simp
  have 4: "Some [] \<notin> set ?results"
    by simp
  have 5: "unionResolver_spec ?alts ?results =
    Some [VM (Some False) False True None None None
            (Some [VM (Some False) True False (Some (JNum 0)) (Some (JStr ''Union #2''))
                     None None (Some True)])
            None]"
    by code_simp
  show ?thesis
    using computeUnionExamples_refines [OF 1 2 3 4] 5 by simp
qed

section \<open>A view model without a value\<close>

text \<open>
  Claim C1 says that every view model that is no union has its \<open>value\<close> set. For the
  structured value of an author example that is a scalar data node, \<open>_generateFromExample\<close>
  assigns to \<open>value\<close> what \<open>_getTypedValue\<close> returns, and that is \<open>undefined\<close> for a node
  without a literal. So for a shape whose example has such a structured value and no raw
  text, \<open>computeExamples\<close> returns a view model whose \<open>value\<close> is \<open>undefined\<close>, where the
  other branches of \<open>_generateFromExample\<close> fall back to the raw text or to the empty
  string.
\<close>

theorem C1_value_undefined:
  "getTypedValue E (JObj [(''@type'', JArr [JStr data_Scalar])]) = Some JUndefined \<and>
   generateFromExample E literalLessExample json empty_opts =
     Some (Some (VM None False False (Some JUndefined) None None None (Some True))) \<and>
   computeExamples E (withExamples [literalLessExample] (scalarShape xsd_string)) json None =
     Some (Some [VM None False False (Some JUndefined) None None None (Some True)], empty_opts)"
  by code_simp

section \<open>The zero value for a prefixed datatype identifier\<close>

text \<open>
  Claim C4 says that the synthesised value of a scalar shape is the entry of the zero-value
  table for its declared datatype. \<open>_computeScalarType\<close> cuts a prefixed identifier at its
  colon by \<open>id.substr(index)\<close>, which keeps the colon, where \<open>_dataNameFromKey\<close> cuts by
  \<open>key.substr(index + 1)\<close>. So the datatype \<open>xsd:integer\<close> is read as \<open>:integer\<close>, which
  no case of the table matches: the synthesised value is the empty string, where the table
  has \<open>0\<close> for integer and where the expanded identifier gives \<open>0\<close>.
\<close>

theorem C4_prefixed_datatype:
  "computeScalarType (scalarShape ''xsd:integer'') = Some (JStr '':integer'') \<and>
   dataNameFromKey (JStr ''xsd:integer'') = Some (JStr ''integer'') \<and>
   zero_value (Some ''integer'') = JNum 0 \<and>
   computeJsonScalarValue E (scalarShape ''xsd:integer'') = Some (JStr []) \<and>
   computeExamples E (scalarShape ''xsd:integer'') json None =
     Some (Some [VM (Some False) False False (Some (JStr [])) None None None (Some True)],
           empty_opts) \<and>
   computeExamples E (scalarShape xsd_integer) json None =
     Some (Some [VM (Some False) False False (Some (JNum 0)) None None None (Some True)],
           empty_opts)"
  by code_simp

section \<open>The union resolver on an alternative with an empty result\<close>

text \<open>
  Claim C6 says that the union resolver skips every alternative for which generation
  produces no result. \<open>_computeFromExamples\<close> returns the empty list when none of the
  examples of a shape generates a view model (\<open>_listTypeExamples\<close> and the resolver itself
  return \<open>undefined\<close> in place of an empty list). The resolver tests the result of an
  alternative by \<open>if (!data)\<close>, takes \<open>data[0]\<close> of the empty list and throws a \<open>TypeError\<close>
  on \<open>data.hasTitle = true\<close>. This happens with \<open>rawOnly\<close> set for an alternative whose
  example has no raw text, and through \<open>computeExamples\<close> for a JSON media type and an
  alternative whose example has a structured value that is neither a scalar, an object nor
  an array; the specification skips that alternative and returns the result of the other.
\<close>

theorem C6_empty_result_throws:
  "computeExamples E (withExamples [literalLessExample] (scalarShape xsd_string)) json
       (Some rawOnly_opts) = Some (Some [], rawOnly_opts) \<and>
   computeUnionExamples E
       (unionShape [withExamples [literalLessExample] (scalarShape xsd_string),
                    scalarShape xsd_integer])
       json rawOnly_opts = None \<and>
   computeExamples E (withExamples [linkExample] (scalarShape xsd_string)) json None =
     Some (Some [], empty_opts) \<and>
   computeExamples E
       (unionShape [withExamples [linkExample] (scalarShape xsd_string), scalarShape xsd_integer])
       json None = None \<and>
   unionResolver_spec
       [withExamples [linkExample] (scalarShape xsd_string), scalarShape xsd_integer]
       [Some [], Some [VM (Some False) False False (Some (JNum 0)) None None None (Some True)]] =
     Some [VM (Some False) False True None None None
             (Some [VM (Some False) True False (Some (JNum 0)) (Some (JStr ''Union #2'')) None
                      None (Some True)])
             None]"
  by code_simp

section \<open>Missing arguments\<close>

text \<open>
  Claim C10. \<open>computeExamples\<close> returns \<open>undefined\<close> when the schema is missing, and when
  the media type is missing and \<open>rawOnly\<close> is not set; \<open>generatePayloadsExamples\<close> does the
  same for its payloads and media type. Neither throws: the result is the absent value,
  next to the options it was given (or the empty options).
\<close>

theorem C10_missing_arguments:
  "(falsy schema \<or> (falsy mime \<and> \<not> o_rawOnly (opts_or_empty opts0)) \<longrightarrow>
      computeExamples E schema mime opts0 = Some (None, opts_or_empty opts0)) \<and>
   (falsy payloads \<or> (falsy media \<and> \<not> o_rawOnly (opts_or_empty opts0)) \<longrightarrow>
      generatePayloadsExamples E payloads media opts0 = Some (None, opts_or_empty opts0))"
  by (simp add: computeExamples.simps generatePayloadsExamples_def)

theorem C10_missing_arguments_witness:
  "computeExamples sample_env JUndefined json None = Some (None, empty_opts) \<and>
   generatePayloadsExamples sample_env JUndefined json None = Some (None, empty_opts)"
  using C10_missing_arguments [of JUndefined json None sample_env JUndefined json]
  by (simp add: falsy_def opts_or_empty_def)

section \<open>Author examples that no payload selects\<close>

text \<open>
  Claim C2 says that when the filter by \<open>typeId\<close> leaves no example, \<open>computeExamples\<close>
  goes on as if the shape had no examples. It does not: for a shape with examples the
  result of \<open>_computeFromExamples\<close> is returned as it is, and that function returns
  \<open>undefined\<close> when the filter leaves nothing. A string scalar whose only example is
  tracked for another payload gives no result, where the same scalar without examples
  gives the synthesised empty string.
\<close>

theorem C2_counterexample:
  "listTypeExamples sample_env
     (processExamples (JArr [trackedExample ''hello'' ''amf://id#2'']))
     (o_typeId (optsFor ''amf://id#1'')) = Some None \<and>
   computeExamples sample_env
     (withExamples [trackedExample ''hello'' ''amf://id#2''] (scalarShape xsd_string))
     json (Some (optsFor ''amf://id#1'')) = Some (None, optsFor ''amf://id#1'') \<and>
   computeExamples sample_env (scalarShape xsd_string) json (Some (optsFor ''amf://id#1'')) =
     Some (Some [VM (Some False) False False (Some (JStr [])) None None None (Some True)],
           optsFor ''amf://id#1'')"
  by code_simp

text \<open>
  Claim C2, amended. For a shape that carries examples and options with \<open>typeId\<close> set: when
  the filter leaves no example, \<open>computeExamples\<close> returns \<open>undefined\<close> at the author-examples
  step; no later step of the precedence runs.
\<close>

theorem C2_no_match_returns_absent:
  assumes "truthy schema" and "truthy mime \<or> o_rawOnly opts" and "truthy (o_typeId opts)"
    and "readTypeName schema opts = Some opts'"
    and "ensureArray (lookup_js schema apiContract_examples) = Some examples"
    and "listTypeExamples E (processExamples (JArr examples)) (o_typeId opts) = Some None"
  shows "computeExamples E schema mime (Some opts) = Some (None, opts')"
proof -
  have "o_typeId opts' = o_typeId opts"
    using assms(4) by (auto simp: readTypeName_def Let_def split: if_splits Option.bind_splits)
  then show ?thesis
    using assms
    by (auto simp: computeExamples.simps opts_or_empty_def falsy_def resolve_def js_get_def
        nullish_def computeFromExamples_def)
qed

theorem C2_no_match_returns_absent_witness:
  "computeExamples sample_env
     (withExamples [trackedExample ''hello'' ''amf://id#2''] (namedScalarShape ''Word'' xsd_string))
     json (Some (optsFor ''amf://id#1'')) =
   Some (None, (optsFor ''amf://id#1'')\<lparr>o_typeName := JStr ''Word''\<rparr>)"
proof -
  let ?schema = "withExamples [trackedExample ''hello'' ''amf://id#2'']
    (namedScalarShape ''Word'' xsd_string)"
  have 1: "truthy ?schema"
    by code_simp
  have 2: "truthy json \<or> o_rawOnly (optsFor ''amf://id#1'')"
    by code_simp
  have 3: "truthy (o_typeId (optsFor ''amf://id#1''))"
    by code_simp
  have 4: "readTypeName ?schema (optsFor ''amf://id#1'') =
      Some ((optsFor ''amf://id#1'')\<lparr>o_typeName := JStr ''Word''\<rparr>)"
    by code_simp
  have 5: "ensureArray (lookup_js ?schema apiContract_examples) =
      Some [trackedExample ''hello'' ''amf://id#2'']"
    by code_simp
  have 6: "listTypeExamples sample_env
      (processExamples (JArr [trackedExample ''hello'' ''amf://id#2'']))
      (o_typeId (optsFor ''amf://id#1'')) = Some None"
    by code_simp
  show ?thesis
    by (rule C2_no_match_returns_absent [OF 1 2 3 4 5 6])
qed

section \<open>The selection of a payload\<close>

text \<open>
  Claim C9 says that when no payload has the requested media type, the only payload of a
  one-element list is attempted instead. It is not: the loop skips every payload whose
  media type differs from a given one, so a single XML payload asked for JSON gives no
  result, although the payload by itself generates an example.
\<close>

theorem C9_counterexample:
  "generatePayloadsExamples sample_env
     (JArr [payloadShape ''amf://id#1'' ''application/xml'' (scalarShape xsd_string)])
     json None = Some (None, empty_opts) \<and>
   generatePayloadExamples sample_env
     (payloadShape ''amf://id#1'' ''application/xml'' (scalarShape xsd_string))
     json (Some empty_opts) =
     Some (Some [VM (Some False) False False (Some (JStr [])) None None None (Some True)],
           Some (optsFor ''amf://id#1''))"
  by code_simp

text \<open>
  Claim C9, amended. For payloads and a media type that are given,
  \<open>generatePayloadsExamples\<close> delegates to \<open>generatePayloadExamples\<close> on the first payload
  whose media type is the requested one, and returns \<open>undefined\<close> when there is none,
  also for a list of one payload. Without a media type (which needs \<open>rawOnly\<close>) it
  delegates on the first payload.
\<close>

theorem C9_payload_selection:
  "(truthy payloads \<and> truthy media \<longrightarrow>
     generatePayloadsExamples E payloads media (Some opts) =
       (case find (\<lambda>payload. strict_eq (getValue payload core_mediaType) media)
               (payloadList payloads) of
          None \<Rightarrow> Some (None, opts)
        | Some payload \<Rightarrow> delegate E payload media opts)) \<and>
   (truthy payloads \<and> falsy media \<and> o_rawOnly opts \<longrightarrow>
     generatePayloadsExamples E payloads media (Some opts) =
       (case payloadList payloads of
          [] \<Rightarrow> Some (None, opts)
        | payload # rest \<Rightarrow> delegate E payload media opts))"
  by (cases "payloadList payloads")
    (auto simp: generatePayloadsExamples_def opts_or_empty_def falsy_def)

theorem C9_payload_selection_witness:
  "generatePayloadsExamples sample_env
     (JArr [payloadShape ''amf://id#1'' ''application/xml'' (scalarShape xsd_string),
            payloadShape ''amf://id#2'' ''application/json'' (scalarShape xsd_integer)])
     json (Some empty_opts) =
     Some (Some [VM (Some False) False False (Some (JNum 0)) None None None (Some True)],
           optsFor ''amf://id#2'') \<and>
   generatePayloadsExamples sample_env
     (JArr [payloadShape ''amf://id#1'' ''application/xml'' (scalarShape xsd_string)])
     JUndefined (Some (empty_opts\<lparr>o_rawOnly := True\<rparr>)) =
     Some (None, (optsFor ''amf://id#1'')\<lparr>o_rawOnly := True\<rparr>)"
proof -
  let ?both = "JArr [payloadShape ''amf://id#1'' ''application/xml'' (scalarShape xsd_string),
    payloadShape ''amf://id#2'' ''application/json'' (scalarShape xsd_integer)]"
  let ?one = "JArr [payloadShape ''amf://id#1'' ''application/xml'' (scalarShape xsd_string)]"
  let ?raw = "empty_opts\<lparr>o_rawOnly := True\<rparr>"
  have 1: "truthy ?both \<and> truthy json"
    by code_simp
  have 2: "(case find (\<lambda>payload. strict_eq (getValue payload core_mediaType) json)
                 (payloadList ?both) of
              None \<Rightarrow> Some (None, empty_opts)
            | Some payload \<Rightarrow> delegate sample_env payload json empty_opts) =
     Some (Some [VM (Some False) False False (Some (JNum 0)) None None None (Some True)],
           optsFor ''amf://id#2'')"
    by code_simp
  have 3: "truthy ?one \<and> falsy JUndefined \<and> o_rawOnly ?raw"
    by code_simp
  have 4: "(case payloadList ?one of
              [] \<Rightarrow> Some (None, ?raw)
            | payload # rest \<Rightarrow> delegate sample_env payload JUndefined ?raw) =
     Some (None, (optsFor ''amf://id#1'')\<lparr>o_rawOnly := True\<rparr>)"
    by code_simp
  from C9_payload_selection [of ?both json sample_env empty_opts] 1 2
  have a: "generatePayloadsExamples sample_env ?both json (Some empty_opts) =
     Some (Some [VM (Some False) False False (Some (JNum 0)) None None None (Some True)],
           optsFor ''amf://id#2'')"
    by simp
  from C9_payload_selection [of ?one JUndefined sample_env ?raw] 3 4
  have b: "generatePayloadsExamples sample_env ?one JUndefined (Some ?raw) =
     Some (None, (optsFor ''amf://id#1'')\<lparr>o_rawOnly := True\<rparr>)"
    by simp
  from a b show ?thesis by simp
qed

section \<open>No synthesis under \<open>noAuto\<close>\<close>

text \<open>
  Claim C3 says that with \<open>noAuto\<close> set, a shape without stored examples in its subgraph
  gives no result. The step that reads a JSON-Schema fragment from the source map of the
  shape comes before the test of \<open>noAuto\<close>: an object shape declared by a fragment stores
  no example, and yet the result is the fragment as a value, or, when the shape has
  properties, a value synthesised from them with the fragment as \<open>raw\<close>.
\<close>

theorem C3_counterexample:
  "all_sub no_example (jsonSchemaShape ''{}'' [propertyShape ''name'' (scalarShape xsd_string)]) \<and>
   computeExamples sample_env (jsonSchemaShape ''{}'' []) json (Some noAuto_opts) =
     Some (Some [VM (Some False) False False (Some (JStr ''{}'')) None None None None],
           noAuto_opts) \<and>
   computeExamples sample_env
     (jsonSchemaShape ''{}'' [propertyShape ''name'' (scalarShape xsd_string)])
     json (Some noAuto_opts) =
     Some (Some [VM (Some True) False False (Some (JStr name_json)) None (Some (JStr ''{}''))
                   None None],
           noAuto_opts)"
  by code_simp

text \<open>
  Claim C3, amended. With \<open>noAuto\<close> set and a media type given, a shape whose subgraph
  stores no example and holds no JSON-Schema fragment (and whose names are strings) gives
  no result: \<open>computeExamples\<close> returns \<open>undefined\<close>, through the recursion into the items of
  an array and the alternatives of a union as well.
\<close>

theorem C3_noAuto_absent:
  assumes "all_sub no_example schema" and "all_sub no_json_schema schema"
    and "all_sub name_readable schema" and "o_noAuto opts" and "m \<noteq> []"
  shows "\<exists>opts'. computeExamples E schema (JStr m) (Some opts) = Some (None, opts')"
proof -
  have "all_sub bare schema"
    using assms(1,2,3) by (rule all_sub_bare)
  then show ?thesis
    using absent_noAuto [of schema opts m E] assms(4,5) by blast
qed

theorem C3_noAuto_absent_witness:
  "\<exists>opts'. computeExamples sample_env
      (arrayShape (unionShape [scalarShape xsd_integer, namedScalarShape ''B'' xsd_boolean]))
      (JStr ''application/json'') (Some noAuto_opts) = Some (None, opts')"
proof -
  let ?schema = "arrayShape (unionShape [scalarShape xsd_integer, namedScalarShape ''B'' xsd_boolean])"
  have 1: "all_sub no_example ?schema"
    by code_simp
  have 2: "all_sub no_json_schema ?schema"
    by code_simp
  have 3: "all_sub name_readable ?schema"
    by code_simp
  have 4: "o_noAuto noAuto_opts"
    by code_simp
  have 5: "''application/json'' \<noteq> []"
    by simp
  show ?thesis
    by (rule C3_noAuto_absent [OF 1 2 3 4 5])
qed

section \<open>Author examples with raw text, for a JSON target\<close>



section \<open>Brackets around the examples of an array shape\<close>

text \<open>
  Claim C5. \<open>_processJsonArrayExamples\<close> is documented to put brackets around the value of
  an example and to do the same for a union, which has a list of values. For a view model
  with a list of values it brackets the value of the first entry only: the other entries
  are returned as they are. So for an array whose items are a union of two string scalars,
  and a JSON media type, the value of the first entry of the union is the bracketed empty
  string literal and the value of the second entry is still the empty string.
\<close>

theorem C5_union_entries_after_first:
  "processJsonArrayItem E (VM hr ht hu v t r (Some (v0 # rest)) sc) =
     map_option (\<lambda>v0'. VM hr ht hu v t r (Some (v0' # rest)) sc) (bracketValue E v0) \<and>
   computeExamples sample_env
     (arrayShape (unionShape [scalarShape xsd_string, namedScalarShape ''B'' xsd_string]))
     json None =
   Some (Some [VM (Some False) False True None None None
                 (Some [VM (Some False) True False
                          (Some (JStr [CHR ''['', CHR 0x22, CHR 0x22, CHR '']'']))
                          (Some (JStr ''Union #1'')) None None (Some True),
                        VM (Some False) True False (Some (JStr [])) (Some (JStr ''B''))
                          None None (Some True)])
                 None],
         empty_opts\<lparr>o_typeName := JStr ''B''\<rparr>)"
proof
  show "processJsonArrayItem E (VM hr ht hu v t r (Some (v0 # rest)) sc) =
     map_option (\<lambda>v0'. VM hr ht hu v t r (Some (v0' # rest)) sc) (bracketValue E v0)"
    by (cases "bracketValue E v0") (simp_all add: processJsonArrayItem_def set_values_def)
  show "computeExamples sample_env
     (arrayShape (unionShape [scalarShape xsd_string, namedScalarShape ''B'' xsd_string]))
     json None =
   Some (Some [VM (Some False) False True None None None
                 (Some [VM (Some False) True False
                          (Some (JStr [CHR ''['', CHR 0x22, CHR 0x22, CHR '']'']))
                          (Some (JStr ''Union #1'')) None None (Some True),
                        VM (Some False) True False (Some (JStr [])) (Some (JStr ''B''))
                          None None (Some True)])
                 None],
         empty_opts\<lparr>o_typeName := JStr ''B''\<rparr>)"
    by code_simp
qed

section \<open>The names of elements and attributes\<close>

text \<open>
  Claim C8. The three functions that clean a name do not clean it alike.
  \<open>_normalizeXmlTagName\<close> keeps the underscore of \<open>user_name\<close>; \<open>_appendXmlElement\<close>, whose
  character class lacks the underscore, emits the element \<open>username\<close> for a range of that
  name; \<open>_appendXmlAttribute\<close> removes the first question mark only and nothing else, so
  that for a range named \<open>a?b?\<close> it sets the attribute \<open>ab?\<close> when the DOM accepts that
  name, and throws otherwise.
\<close>

theorem C8_names_not_sanitised_alike:
  "normalizeXmlTagName (JStr ''user_name'') = Some (JStr ''user_name'') \<and>
   appendXmlElement E (XElem ''root'' [] []) (namedScalarShape ''user_name'' xsd_string) =
     (if dom_validName E ''username''
      then Some (XElem ''root'' [] [XElem ''username'' [] [XText '' '']],
                 Some (XElem ''username'' [] [XText '' '']))
      else None) \<and>
   appendXmlAttribute E (XElem ''root'' [] []) JUndefined
       (namedScalarShape ''a?b?'' xsd_string) (JObj []) =
     (if dom_validName E ''ab?''
      then Some (XElem ''root'' [(''ab?'', ''string'')] [])
      else None)"
proof (intro conjI)
  show "normalizeXmlTagName (JStr ''user_name'') = Some (JStr ''user_name'')"
    by code_simp
  have name: "getValue (namedScalarShape ''user_name'' xsd_string) shacl_name = JStr ''user_name''"
    by code_simp
  have dv: "getValue (namedScalarShape ''user_name'' xsd_string) shacl_defaultValueStr = JUndefined"
    by code_simp
  have ex: "js_get (namedScalarShape ''user_name'' xsd_string) apiContract_examples = Some JUndefined"
    by code_simp
  have clean: "keep_chars (alnum @ ''-'') ''user_name'' = ''username''"
    by code_simp
  show "appendXmlElement E (XElem ''root'' [] []) (namedScalarShape ''user_name'' xsd_string) =
     (if dom_validName E ''username''
      then Some (XElem ''root'' [] [XElem ''username'' [] [XText '' '']],
                 Some (XElem ''username'' [] [XText '' '']))
      else None)"
    unfolding appendXmlElement_def name dv ex
    by (simp add: falsy_def clean createElement_def appendChild_def createTextNode_def str_of_def)
  have name': "getValue (namedScalarShape ''a?b?'' xsd_string) shacl_name = JStr ''a?b?''"
    by code_simp
  have ser: "getValue (JObj []) shapes_xmlName = JUndefined"
    by code_simp
  have q: "js_indexOf (JStr ''a?b?'') ''?'' = Some 1"
    by code_simp
  have r: "replace_first ''?'' (JStr ''a?b?'') = Some (JStr ''ab?'')"
    by code_simp
  have dt: "readDataType (namedScalarShape ''a?b?'' xsd_string) = Some (JStr ''string'')"
    by code_simp
  show "appendXmlAttribute E (XElem ''root'' [] []) JUndefined
       (namedScalarShape ''a?b?'' xsd_string) (JObj []) =
     (if dom_validName E ''ab?''
      then Some (XElem ''root'' [(''ab?'', ''string'')] [])
      else None)"
    unfolding appendXmlAttribute_def name' ser
    by (simp add: falsy_def q r dt setAttribute_def str_of_def)
qed

end
